theory Spec2Isabelle
  imports Main
begin

section \<open>Python string primitives used by the views\<close>

text \<open>
  A Python string is modelled by its UTF-8 encoding, one \<^typ>\<open>char\<close> for each byte, so
  that every character of the text has its place in the model. The views test strings for
  emptiness, join them, strip ASCII characters from their end and split them at white
  space; none of these depends on how many bytes a character takes.
\<close>

text \<open>\<open>sep.join(xs)\<close>\<close>

fun join :: "string \<Rightarrow> string list \<Rightarrow> string" where
  "join sep [] = []"
| "join sep [x] = x"
| "join sep (x # y # ys) = x @ sep @ join sep (y # ys)"

abbreviation nl :: string where
  "nl \<equiv> [CHR 0x0A]"

text \<open>
  The characters at which \<open>str.split()\<close> splits, each in its UTF-8 encoding: U+0009 to
  U+000D, U+001C to U+0020, U+0085, U+00A0, U+1680, U+2000 to U+200A, U+2028, U+2029,
  U+202F, U+205F and U+3000.
\<close>

definition whitespace :: "string list" where
  "whitespace =
     [[CHR 0x09], [CHR 0x0A], [CHR 0x0B], [CHR 0x0C], [CHR 0x0D],
      [CHR 0x1C], [CHR 0x1D], [CHR 0x1E], [CHR 0x1F], [CHR 0x20],
      [CHR 0xC2, CHR 0x85], [CHR 0xC2, CHR 0xA0], [CHR 0xE1, CHR 0x9A, CHR 0x80],
      [CHR 0xE2, CHR 0x80, CHR 0x80], [CHR 0xE2, CHR 0x80, CHR 0x81],
      [CHR 0xE2, CHR 0x80, CHR 0x82], [CHR 0xE2, CHR 0x80, CHR 0x83],
      [CHR 0xE2, CHR 0x80, CHR 0x84], [CHR 0xE2, CHR 0x80, CHR 0x85],
      [CHR 0xE2, CHR 0x80, CHR 0x86], [CHR 0xE2, CHR 0x80, CHR 0x87],
      [CHR 0xE2, CHR 0x80, CHR 0x88], [CHR 0xE2, CHR 0x80, CHR 0x89],
      [CHR 0xE2, CHR 0x80, CHR 0x8A], [CHR 0xE2, CHR 0x80, CHR 0xA8],
      [CHR 0xE2, CHR 0x80, CHR 0xA9], [CHR 0xE2, CHR 0x80, CHR 0xAF],
      [CHR 0xE2, CHR 0x81, CHR 0x9F], [CHR 0xE3, CHR 0x80, CHR 0x80]]"

text \<open>The number of bytes of the white-space character at the head of a string; 0 when
  the string does not begin with one.\<close>

definition space_len :: "string \<Rightarrow> nat" where
  "space_len s =
     (case find (\<lambda>w. take (length w) s = w) whitespace of
        None \<Rightarrow> 0
      | Some w \<Rightarrow> length w)"

text \<open>\<open>s.split()\<close>: the maximal runs of characters that are not white space, in order.
  \<open>cur\<close> is the run being read and \<open>skip\<close> the number of bytes still to pass of the
  white-space character just met.\<close>

fun split_acc :: "string \<Rightarrow> nat \<Rightarrow> string \<Rightarrow> string list" where
  "split_acc cur skip [] = (if cur = [] then [] else [cur])"
| "split_acc cur skip (c # cs) =
     (if 0 < skip then split_acc cur (skip - 1) cs
      else
        (case space_len (c # cs) of
           0 \<Rightarrow> split_acc (cur @ [c]) 0 cs
         | Suc k \<Rightarrow> if cur = [] then split_acc [] k cs else cur # split_acc [] k cs))"

definition str_split :: "string \<Rightarrow> string list" where
  "str_split s = split_acc [] 0 s"

text \<open>\<open>s.rstrip(chars)\<close>: drops every trailing character that occurs in \<open>chars\<close>.\<close>

definition rstrip :: "string \<Rightarrow> string \<Rightarrow> string" where
  "rstrip chars s = rev (dropWhile (\<lambda>c. c \<in> set chars) (rev s))"

text \<open>Truthiness of an optional string: \<open>None\<close> and \<open>""\<close> are false.\<close>

fun truthy :: "string option \<Rightarrow> bool" where
  "truthy None = False"
| "truthy (Some s) = (s \<noteq> [])"

text \<open>\<open>d.get(key, default)\<close> on an optional entry.\<close>

fun get_default :: "'a option \<Rightarrow> 'a \<Rightarrow> 'a" where
  "get_default None d = d"
| "get_default (Some v) d = v"


section \<open>Data model\<close>

type_synonym language = string

text \<open>
  Every pipeline method returns the pair \<open>(result, error)\<close>: \<open>(Some out, None)\<close> on
  success and \<open>(None, Some msg)\<close> on failure.
\<close>

type_synonym outcome = "string option \<times> string option"

text \<open>Exceptions. \<open>OSError\<close> is what \<open>os.remove\<close> raises, and \<open>LibraryError\<close> an
  exception raised inside another collaborator (temp-file allocation, rename, process
  spawn, kernel start); both carry their message.\<close>

datatype exn =
  IndexError | KeyError string | UnboundLocalError string | OSError string | LibraryError string

fun str_exn :: "exn \<Rightarrow> string" where
  "str_exn IndexError = ''list index out of range''"
| "str_exn (KeyError k) = [CHR 0x27] @ k @ [CHR 0x27]"
| "str_exn (UnboundLocalError v) =
     ''local variable '' @ [CHR 0x27] @ v @ [CHR 0x27] @ '' referenced before assignment''"
| "str_exn (OSError m) = m"
| "str_exn (LibraryError m) = m"

text \<open>
  A message that an engine channel delivers after some delay, or never. A read with
  timeout \<open>t\<close> returns the message when it arrives within \<open>t\<close> time units and raises
  \<open>queue.Empty\<close> (here \<open>None\<close>) otherwise.
\<close>

datatype 'a timed = Never | After nat 'a

fun recv :: "nat \<Rightarrow> 'a timed \<Rightarrow> 'a option" where
  "recv t Never = None"
| "recv t (After d m) = (if d \<le> t then Some m else None)"

text \<open>The reply on the control channel: a dictionary that may lack \<open>content\<close>, whose
  content may lack \<open>status\<close> and \<open>evalue\<close>.\<close>

record reply_content =
  status :: "string option"
  evalue :: "string option"

type_synonym reply = "reply_content option"

text \<open>A message on the output channel: its \<open>msg_type\<close> and the entries of its
  \<open>content\<close> that the drain loop reads (\<open>data['text/plain']\<close>, \<open>text\<close>,
  \<open>traceback\<close>, \<open>execution_state\<close>), each possibly absent.\<close>

record iopub_msg =
  msg_type :: string
  text_plain :: "string option"
  stream_text :: "string option"
  traceback :: "string list option"
  execution_state :: "string option"

text \<open>The file system: what each existing path is, a file with its content or a
  directory.\<close>

datatype node = File string | Directory

type_synonym filesystem = "string \<rightharpoonup> node"

text \<open>What the collaborators do during one call. \<open>remove_error p\<close> is the message of
  the \<open>OSError\<close> that \<open>os.remove\<close> raises on the file \<open>p\<close> (for lack of permission,
  say), if it raises one.\<close>

record env =
  os_name :: string
  tmp_alloc :: "string + string"
  write_error :: "string option"
  rename_error :: "string option"
  remove_error :: "string \<Rightarrow> string option"
  run_command :: "string \<Rightarrow> filesystem \<Rightarrow> (string + int \<times> string \<times> string) \<times> filesystem"
  kernel_start :: "string option"
  shell_reply :: "reply timed"
  iopub_msgs :: "nat \<Rightarrow> iopub_msg timed"

text \<open>
  The process-wide state: the class attributes \<open>kernels\<close> and \<open>code_sessions\<close> of
  \<open>ExecuteCodeView\<close>, the file system, the number of kernels started so far (a kernel
  instance is identified by its start number), and the execute requests sent to kernels.
\<close>

record state =
  kernels :: "language \<rightharpoonup> nat"
  code_sessions :: "language \<rightharpoonup> string list"
  files :: filesystem
  started :: nat
  sent :: "(nat \<times> string) list"


section \<open>Language tables\<close>

definition get_kernel_name :: "language \<Rightarrow> string option" where
  "get_kernel_name language =
     map_of [(''python'', ''python3''), (''javascript'', ''javascript''), (''r'', ''ir''),
             (''java'', ''java''), (''cpp'', ''xeus-cling''), (''c'', ''clang'')] language"

definition get_execution_command :: "language \<Rightarrow> string \<Rightarrow> string option" where
  "get_execution_command language file_path =
     map_of [(''cpp'', ''g++ '' @ file_path @ '' -o '' @ file_path @ ''.out && '' @ file_path @ ''.out''),
             (''java'', ''javac '' @ file_path @ '' && java '' @ rstrip ''.java'' file_path),
             (''c'', ''gcc '' @ file_path @ '' -o '' @ file_path @ ''.out && '' @ file_path @ ''.out'')]
       language"

definition get_file_extension :: "language \<Rightarrow> string" where
  "get_file_extension language =
     get_default
       (map_of [(''python'', ''.py''), (''javascript'', ''.js''), (''cpp'', ''.cpp''),
                (''java'', ''.java''), (''r'', ''.R''), (''c'', ''.c'')] language) ''''"


section \<open>Interactive pipeline\<close>

definition timeout_message :: string where
  "timeout_message =
     ''Execution timed out. The code may be too complex or there could be a kernel issue.''"

definition placeholder :: string where
  "placeholder = ''executed succesfully.''"

text \<open>The \<open>if/elif\<close> chain on the message type: either the call returns at once (an
  \<open>error\<close> message) or the loop goes on with the new list of fragments.\<close>

definition handle_msg :: "iopub_msg \<Rightarrow> string list \<Rightarrow> outcome + string list" where
  "handle_msg msg result_msgs =
     (if msg_type msg = ''execute_result'' then Inr (result_msgs @ [get_default (text_plain msg) ''''])
      else if msg_type msg = ''stream'' then Inr (result_msgs @ [get_default (stream_text msg) ''''])
      else if msg_type msg = ''error'' then
        Inl (None, Some (join nl (get_default (traceback msg) [])))
      else Inr result_msgs)"

text \<open>\<open>'\n'.join(result_msgs) or "executed succesfully."\<close>\<close>

definition finalize :: "string list \<Rightarrow> outcome" where
  "finalize result_msgs =
     (Some (if join nl result_msgs = [] then placeholder else join nl result_msgs), None)"

text \<open>
  The \<open>while True\<close> loop; \<open>i\<close> counts the reads made so far. A read that times out
  raises \<open>queue.Empty\<close>, caught by the inner handler; a \<open>status\<close> message without
  \<open>execution_state\<close> raises \<open>KeyError\<close>, caught by the outer handler. The loop has no
  bound of its own: the result is \<open>None\<close> when it never returns.
\<close>

partial_function (option) drain :: "(nat \<Rightarrow> iopub_msg timed) \<Rightarrow> nat \<Rightarrow> string list \<Rightarrow> outcome option"
  where
  "drain iopub i result_msgs =
     (case recv 10 (iopub i) of
        None \<Rightarrow> Some (None, Some timeout_message)
      | Some msg \<Rightarrow>
          (case handle_msg msg result_msgs of
             Inl out \<Rightarrow> Some out
           | Inr result_msgs' \<Rightarrow>
               if msg_type msg = ''status'' then
                 (case execution_state msg of
                    None \<Rightarrow> Some (None, Some (str_exn (KeyError ''execution_state'')))
                  | Some st \<Rightarrow>
                      if st = ''idle'' then Some (finalize result_msgs')
                      else drain iopub (Suc i) result_msgs')
               else drain iopub (Suc i) result_msgs'))"

declare drain.simps [code]

text \<open>What follows the reply on the control channel.\<close>

definition after_reply :: "env \<Rightarrow> outcome option" where
  "after_reply e =
     (case recv 10 (shell_reply e) of
        None \<Rightarrow> Some (None, Some timeout_message)
      | Some rep \<Rightarrow>
          (case rep of
             None \<Rightarrow> Some (None, Some ''Invalid reply from kernel'')
           | Some content \<Rightarrow>
               (case status content of
                  None \<Rightarrow> Some (None, Some ''Invalid reply from kernel'')
                | Some st \<Rightarrow>
                    if st = ''ok'' then drain (iopub_msgs e) 0 []
                    else Some (None, Some (get_default (evalue content)
                                 ''Unknown error occurred during execution'')))))"

definition execute_code_with_jupyter ::
  "state \<Rightarrow> env \<Rightarrow> language \<Rightarrow> string \<Rightarrow> string option \<Rightarrow> (outcome \<times> state) option" where
  "execute_code_with_jupyter s e language code block_id =
     (case get_kernel_name language of
        None \<Rightarrow> Some ((None, Some (''Unsupported language: '' @ language)), s)
      | Some kernel_name \<Rightarrow>
          if kernel_name = [] then Some ((None, Some (''Unsupported language: '' @ language)), s)
          else
            (case kernels s language of
               None \<Rightarrow>
                 (case kernel_start e of
                    Some m \<Rightarrow> Some ((None, Some (str_exn (LibraryError m))), s)
                  | None \<Rightarrow>
                      let kc = started s;
                          s1 = s\<lparr>kernels := (kernels s)(language \<mapsto> kc), started := Suc (started s)\<rparr>;
                          s2 = s1\<lparr>sent := sent s1 @ [(kc, code)]\<rparr>
                      in map_option (\<lambda>out. (out, s2)) (after_reply e))
             | Some kc \<Rightarrow>
                 let s2 = s\<lparr>sent := sent s @ [(kc, code)]\<rparr>
                 in map_option (\<lambda>out. (out, s2)) (after_reply e)))"


section \<open>Compiled pipeline\<close>

text \<open>The two locals that the \<open>finally\<close> block of \<open>execute_compiled_code\<close> reads.
  \<open>tmp_file_name\<close> starts as \<open>None\<close>; \<open>tmp_file_path\<close> is bound only once the temp
  file has been allocated, and \<open>None\<close> here means that it is still unbound.\<close>

record locals =
  tmp_file_name :: "string option"
  tmp_file_path :: "string option"

text \<open>\<open>os.path.exists\<close>; the empty path never exists.\<close>

definition path_exists :: "state \<Rightarrow> string \<Rightarrow> bool" where
  "path_exists s p = (p \<noteq> [] \<and> p \<in> dom (files s))"

text \<open>\<open>os.remove\<close>: it raises on a path that is missing or a directory, and on a file
  when the collaborators say so; the exception, if any, comes with the unchanged state.\<close>

definition os_remove :: "env \<Rightarrow> state \<Rightarrow> string \<Rightarrow> exn option \<times> state" where
  "os_remove e s p =
     (case files s p of
        None \<Rightarrow>
          (Some (OSError (''[Errno 2] No such file or directory: '' @ [CHR 0x27] @ p @ [CHR 0x27])), s)
      | Some Directory \<Rightarrow>
          (Some (OSError (''[Errno 21] Is a directory: '' @ [CHR 0x27] @ p @ [CHR 0x27])), s)
      | Some (File content) \<Rightarrow>
          (case remove_error e p of
             Some m \<Rightarrow> (Some (OSError m), s)
           | None \<Rightarrow> (None, s\<lparr>files := (files s)(p := None)\<rparr>)))"

definition os_rename :: "state \<Rightarrow> string \<Rightarrow> string \<Rightarrow> state" where
  "os_rename s src dst = s\<lparr>files := ((files s)(src := None))(dst := files s src)\<rparr>"

text \<open>\<open>code.split()[2]\<close> and the file name derived from it.\<close>

definition java_file_name :: "string \<Rightarrow> exn + string" where
  "java_file_name code =
     (case drop 2 (str_split code) of
        [] \<Rightarrow> Inl IndexError
      | class_name # _ \<Rightarrow> Inr (class_name @ ''.java''))"

text \<open>
  The \<open>try\<close> body of \<open>execute_compiled_code\<close> with its \<open>except Exception\<close> handler, in
  two parts. \<open>compiled_prepare\<close> is lines 146 to 164: \<open>Inl\<close> when the call returns before
  the child process is started (with the outcome, the locals as they stand and the state),
  \<open>Inr\<close> with the command when it is about to start it. \<open>compiled_run\<close> is lines 166 to 174.
\<close>

definition compiled_prepare ::
  "state \<Rightarrow> env \<Rightarrow> language \<Rightarrow> string \<Rightarrow> (outcome \<times> locals \<times> state) + (string \<times> locals \<times> state)" where
  "compiled_prepare s e language code =
     (case (if language = ''java'' then java_file_name code else Inr ''temp_file'') of
        Inl ex \<Rightarrow> Inl ((None, Some (str_exn ex)), \<lparr>tmp_file_name = None, tmp_file_path = None\<rparr>, s)
      | Inr name \<Rightarrow>
          let file_extension = get_file_extension language in
          (case tmp_alloc e of
             Inl m \<Rightarrow> Inl ((None, Some m), \<lparr>tmp_file_name = Some name, tmp_file_path = None\<rparr>, s)
           | Inr stem \<Rightarrow>
               let path = stem @ file_extension;
                   l = \<lparr>tmp_file_name = Some name, tmp_file_path = Some path\<rparr>;
                   s1 = s\<lparr>files := (files s)(path \<mapsto> File [])\<rparr>
               in
               (case write_error e of
                  Some m \<Rightarrow> Inl ((None, Some m), l, s1)
                | None \<Rightarrow>
                    let s2 = s1\<lparr>files := (files s1)(path \<mapsto> File code)\<rparr> in
                    (case (if language = ''java''
                           then (case rename_error e of
                                   Some m \<Rightarrow> Inl m
                                 | None \<Rightarrow> Inr (os_rename s2 path name))
                           else Inr s2) of
                       Inl m \<Rightarrow> Inl ((None, Some m), l, s2)
                     | Inr s3 \<Rightarrow>
                         let command = get_execution_command language
                                         (if language = ''java'' then name else path)
                         in
                         if truthy command then Inr (get_default command [], l, s3)
                         else Inl ((None, Some (''Unsupported language: '' @ language)), l, s3)))))"

definition compiled_run :: "env \<Rightarrow> string \<Rightarrow> locals \<Rightarrow> state \<Rightarrow> outcome \<times> locals \<times> state" where
  "compiled_run e command l s3 =
     (case run_command e command (files s3) of
        (Inl m, fs) \<Rightarrow> ((None, Some m), l, s3\<lparr>files := fs\<rparr>)
      | (Inr (returncode, stdout, stderr), fs) \<Rightarrow>
          if returncode \<noteq> 0 then ((None, Some stderr), l, s3\<lparr>files := fs\<rparr>)
          else ((Some stdout, None), l, s3\<lparr>files := fs\<rparr>))"

definition compiled_body :: "state \<Rightarrow> env \<Rightarrow> language \<Rightarrow> string \<Rightarrow> outcome \<times> locals \<times> state" where
  "compiled_body s e language code =
     (case compiled_prepare s e language code of
        Inl early \<Rightarrow> early
      | Inr (command, l, s3) \<Rightarrow> compiled_run e command l s3)"

text \<open>The \<open>finally\<close> block. Reading the unbound \<open>tmp_file_path\<close> raises
  \<open>UnboundLocalError\<close>; that exception, or one raised by \<open>os.remove\<close>, replaces the
  pending return.\<close>

definition compiled_finally :: "env \<Rightarrow> locals \<Rightarrow> state \<Rightarrow> exn option \<times> state" where
  "compiled_finally e l s =
     (let elif_branch =
            (case tmp_file_path l of
               None \<Rightarrow> (Some (UnboundLocalError ''tmp_file_path''), s)
             | Some p \<Rightarrow> if p \<noteq> [] \<and> path_exists s p then os_remove e s p else (None, s))
      in
      case tmp_file_name l of
        None \<Rightarrow> elif_branch
      | Some n \<Rightarrow> if n \<noteq> [] \<and> path_exists s n then os_remove e s n else elif_branch)"

definition execute_compiled_code ::
  "state \<Rightarrow> env \<Rightarrow> language \<Rightarrow> string \<Rightarrow> string option \<Rightarrow> (exn + outcome) \<times> state" where
  "execute_compiled_code s e language code block_id =
     (case compiled_body s e language code of
        (out, l, s1) \<Rightarrow>
          (case compiled_finally e l s1 of
             (Some ex, s2) \<Rightarrow> (Inl ex, s2)
           | (None, s2) \<Rightarrow> (Inr out, s2)))"


section \<open>Markup pipeline\<close>

definition execute_html_css :: "state \<Rightarrow> env \<Rightarrow> string \<Rightarrow> outcome \<times> state" where
  "execute_html_css s e code =
     (case tmp_alloc e of
        Inl m \<Rightarrow> ((None, Some m), s)
      | Inr stem \<Rightarrow>
          let path = stem @ ''.html'';
              s1 = s\<lparr>files := (files s)(path \<mapsto> File [])\<rparr>
          in
          (case write_error e of
             Some m \<Rightarrow> ((None, Some m), s1)
           | None \<Rightarrow>
               let s2 = s1\<lparr>files := (files s1)(path \<mapsto> File code)\<rparr>;
                   command = (if os_name e = ''nt'' then ''start '' @ path else ''xdg-open '' @ path)
               in
               (case run_command e command (files s2) of
                  (Inl m, fs) \<Rightarrow> ((None, Some m), s2\<lparr>files := fs\<rparr>)
                | (Inr _, fs) \<Rightarrow>
                    ((Some (''HTML/CSS executed successfully. View it at: file://'' @ path), None),
                     s2\<lparr>files := fs\<rparr>))))"


section \<open>Dispatch and the two views\<close>

text \<open>\<open>execute_code\<close>, written twice in the source with the same body (once in each
  view); both reach the class attributes of \<open>ExecuteCodeView\<close>. \<open>Inl\<close> is an exception
  that leaves the pipeline, \<open>None\<close> a call that never returns.\<close>

definition execute_code ::
  "state \<Rightarrow> env \<Rightarrow> language \<Rightarrow> string \<Rightarrow> string option \<Rightarrow> ((exn + outcome) \<times> state) option" where
  "execute_code s e language code block_id =
     (if language \<in> set [''cpp'', ''java'', ''c''] then
        Some (execute_compiled_code s e language code block_id)
      else if language \<in> set [''html'', ''css''] then
        Some (case execute_html_css s e code of (out, s') \<Rightarrow> (Inr out, s'))
      else
        map_option (\<lambda>(out, s'). (Inr out, s')) (execute_code_with_jupyter s e language code block_id))"

record request =
  req_code :: "string option"
  req_language :: "string option"
  req_block_id :: "string option"
  execute_in_order :: bool

datatype entry = ErrorEntry string | OutputEntry "string option"

datatype body = ErrorBody string | OutputBody "string option" | ResultsBody "string \<rightharpoonup> entry"

datatype response = Response body nat

text \<open>The tail of \<open>ExecuteCodeView.post\<close>, from \<open>if error:\<close> on.\<close>

definition respond :: "outcome \<Rightarrow> response" where
  "respond out =
     (case out of (result, error) \<Rightarrow>
        if truthy error then Response (ErrorBody (get_default error [])) 500
        else Response (OutputBody result) 200)"

text \<open>An exception that left \<open>execute_code\<close> leaves \<open>post\<close> as well; a call that never
  returns gives no response.\<close>

definition finish ::
  "((exn + outcome) \<times> state) option \<Rightarrow> ((exn + response) \<times> state) option" where
  "finish r = map_option (\<lambda>(x, s'). (map_sum id respond x, s')) r"

text \<open>Lines 32 to 37 of \<open>post\<close>: the ledger with the snippet appended.\<close>

definition append_session :: "state \<Rightarrow> language \<Rightarrow> string \<Rightarrow> state" where
  "append_session s language code =
     (let sessions = (if language \<notin> dom (code_sessions s) then (code_sessions s)(language \<mapsto> [])
                      else code_sessions s)
      in s\<lparr>code_sessions := sessions(language \<mapsto> get_default (sessions language) [] @ [code])\<rparr>)"

definition post :: "state \<Rightarrow> env \<Rightarrow> request \<Rightarrow> ((exn + response) \<times> state) option" where
  "post s e request =
     (let code = get_default (req_code request) [];
          language = get_default (req_language request) [];
          block_id = req_block_id request
      in
      if code = [] \<or> language = [] then
        Some (Inr (Response (ErrorBody ''Code or language not provided'') 400), s)
      else
        finish
          (if execute_in_order request then
             let s1 = append_session s language code;
                 full_code = join nl (get_default (code_sessions s1 language) [])
             in execute_code s1 e language full_code block_id
           else execute_code s e language code block_id))"

record block =
  blk_block_id :: "string option"
  blk_code :: "string option"

text \<open>The \<open>for\<close> loop of \<open>ExecuteAllCodeView.post\<close>; \<open>envs i\<close> is what the collaborators
  do while block number \<open>i\<close> runs.\<close>

fun run_blocks ::
  "(nat \<Rightarrow> env) \<Rightarrow> language \<Rightarrow> nat \<Rightarrow> block list \<Rightarrow> (string \<rightharpoonup> entry) \<Rightarrow> state
     \<Rightarrow> ((exn + (string \<rightharpoonup> entry)) \<times> state) option" where
  "run_blocks envs language i [] overall_results s = Some (Inr overall_results, s)"
| "run_blocks envs language i (b # rest) overall_results s =
     (let block_id = get_default (blk_block_id b) [];
          code = get_default (blk_code b) []
      in
      if code = [] \<or> block_id = [] then run_blocks envs language (Suc i) rest overall_results s
      else
        (case execute_code s (envs i) language code (Some block_id) of
           None \<Rightarrow> None
         | Some (Inl ex, s') \<Rightarrow> Some (Inl ex, s')
         | Some (Inr (result, error), s') \<Rightarrow>
             run_blocks envs language (Suc i) rest
               (overall_results(block_id \<mapsto>
                  (if truthy error then ErrorEntry (get_default error []) else OutputEntry result)))
               s'))"

definition post_all ::
  "state \<Rightarrow> (nat \<Rightarrow> env) \<Rightarrow> block list \<Rightarrow> string option \<Rightarrow> ((exn + response) \<times> state) option" where
  "post_all s envs code_blocks lang =
     (let language = get_default lang [] in
      if code_blocks = [] \<or> language = [] then
        Some (Inr (Response (ErrorBody ''Code blocks or language not provided'') 400), s)
      else
        map_option (\<lambda>(r, s'). (map_sum id (\<lambda>overall. Response (ResultsBody overall) 200) r, s'))
          (run_blocks envs language 0 code_blocks Map.empty s))"


section \<open>Requests served one after another\<close>

text \<open>The process serves calls in sequence on the shared state. An exception that
  leaves a view ends that request only; the state it left behind stays.\<close>

datatype call = Execute env request | ExecuteAll "nat \<Rightarrow> env" "block list" "string option"

fun serve :: "state \<Rightarrow> call \<Rightarrow> state option" where
  "serve s (Execute e request) = map_option snd (post s e request)"
| "serve s (ExecuteAll envs code_blocks lang) = map_option snd (post_all s envs code_blocks lang)"

fun serve_all :: "state \<Rightarrow> call list \<Rightarrow> state option" where
  "serve_all s [] = Some s"
| "serve_all s (c # cs) = (case serve s c of None \<Rightarrow> None | Some s' \<Rightarrow> serve_all s' cs)"

definition init :: state where
  "init = \<lparr>kernels = Map.empty, code_sessions = Map.empty, files = Map.empty, started = 0, sent = []\<rparr>"


section \<open>Vocabulary of the statements\<close>

abbreviation ordered :: "language \<Rightarrow> string \<Rightarrow> string option \<Rightarrow> request" where
  "ordered language code block_id \<equiv>
     \<lparr>req_code = Some code, req_language = Some language, req_block_id = block_id,
      execute_in_order = True\<rparr>"

abbreviation unordered :: "language \<Rightarrow> string \<Rightarrow> string option \<Rightarrow> request" where
  "unordered language code block_id \<equiv>
     \<lparr>req_code = Some code, req_language = Some language, req_block_id = block_id,
      execute_in_order = False\<rparr>"

text \<open>The snippets accumulated for a language so far.\<close>

definition history :: "state \<Rightarrow> language \<Rightarrow> string list" where
  "history s language = get_default (code_sessions s language) []"

text \<open>The languages that some table or dispatch list of the source names.\<close>

definition configured_languages :: "language list" where
  "configured_languages =
     [''cpp'', ''java'', ''c'', ''html'', ''css'', ''python'', ''javascript'', ''r'']"

text \<open>A message that does not arrive within \<open>t\<close> time units.\<close>

fun late :: "nat \<Rightarrow> 'a timed \<Rightarrow> bool" where
  "late t Never = True"
| "late t (After d m) = (t < d)"

text \<open>An engine can be reached for the language: it has a kernel name, and its kernel
  is in the pool already or starts without an exception.\<close>

definition kernel_available :: "state \<Rightarrow> env \<Rightarrow> language \<Rightarrow> bool" where
  "kernel_available s e language =
     (get_kernel_name language \<noteq> None \<and> (kernels s language \<noteq> None \<or> kernel_start e = None))"

text \<open>The control channel answers in time with status \<open>ok\<close>.\<close>

definition replied_ok :: "env \<Rightarrow> bool" where
  "replied_ok e =
     (case recv 10 (shell_reply e) of
        Some (Some content) \<Rightarrow> status content = Some ''ok''
      | _ \<Rightarrow> False)"

definition is_idle :: "iopub_msg \<Rightarrow> bool" where
  "is_idle m = (msg_type m = ''status'' \<and> execution_state m = Some ''idle'')"

text \<open>A message after which the loop reads again: no \<open>error\<close> message, and a \<open>status\<close>
  message only with an execution state other than \<open>idle\<close>.\<close>

definition keeps_draining :: "iopub_msg \<Rightarrow> bool" where
  "keeps_draining m =
     (msg_type m \<noteq> ''error'' \<and>
      (if msg_type m = ''status''
       then (case execution_state m of None \<Rightarrow> False | Some st \<Rightarrow> st \<noteq> ''idle'')
       else True))"

text \<open>What one message adds to the output, and what a run of messages adds.\<close>

definition contribution :: "iopub_msg \<Rightarrow> string list" where
  "contribution m =
     (if msg_type m = ''execute_result'' then [get_default (text_plain m) []]
      else if msg_type m = ''stream'' then [get_default (stream_text m) []]
      else [])"

definition fragments :: "iopub_msg list \<Rightarrow> string list" where
  "fragments ms = concat (map contribution ms)"

text \<open>The final step as the specification words it: the joined fragments, or the
  placeholder when no fragment was collected.\<close>

definition spec_finalize :: "string list \<Rightarrow> outcome" where
  "spec_finalize frags = (Some (if frags = [] then placeholder else join nl frags), None)"

text \<open>The \<open>finally\<close> block of the compiled pipeline raises no exception.\<close>

definition cleanup_quiet :: "env \<Rightarrow> locals \<Rightarrow> state \<Rightarrow> bool" where
  "cleanup_quiet e l s = (fst (compiled_finally e l s) = None)"

text \<open>One start per pooled language: as many kernels were started as the pool holds,
  and every pooled kernel is one of those started.\<close>

definition pool_ok :: "state \<Rightarrow> bool" where
  "pool_ok s =
     (finite (dom (kernels s)) \<and> card (dom (kernels s)) = started s \<and>
      (\<forall>k \<in> ran (kernels s). k < started s))"


section \<open>Sample inputs\<close>

text \<open>An output channel that delivers the listed messages at once and nothing after.\<close>

definition chan :: "iopub_msg list \<Rightarrow> nat \<Rightarrow> iopub_msg timed" where
  "chan ms i = (if i < length ms then After 0 (ms ! i) else Never)"

definition msg :: "string \<Rightarrow> iopub_msg" where
  "msg t = \<lparr>msg_type = t, text_plain = None, stream_text = None, traceback = None,
            execution_state = None\<rparr>"

definition busy :: iopub_msg where
  "busy = (msg ''status'')\<lparr>execution_state := Some ''busy''\<rparr>"

definition idle :: iopub_msg where
  "idle = (msg ''status'')\<lparr>execution_state := Some ''idle''\<rparr>"

definition stream :: "string \<Rightarrow> iopub_msg" where
  "stream t = (msg ''stream'')\<lparr>stream_text := Some t\<rparr>"

definition ok_reply :: "reply timed" where
  "ok_reply = After 1 (Some \<lparr>status = Some ''ok'', evalue = None\<rparr>)"

text \<open>Collaborators that all succeed: the temp file is \<open>/tmp/tmpab12\<close> plus the suffix,
  the child process exits with \<open>rc\<close>, and the engine prints \<open>out\<close>.\<close>

definition env_ok :: "int \<Rightarrow> string \<Rightarrow> string \<Rightarrow> env" where
  "env_ok rc out err =
     \<lparr>os_name = ''posix'', tmp_alloc = Inr ''/tmp/tmpab12'', write_error = None,
      rename_error = None, remove_error = (\<lambda>p. None),
      run_command = (\<lambda>command fs. (Inr (rc, out, err), fs)),
      kernel_start = None, shell_reply = ok_reply,
      iopub_msgs = chan [busy, stream out, idle]\<rparr>"


text \<open>The state after \<open>x = 1\<close> and then \<open>y = 2\<close> were run in order on a fresh Python
  engine.\<close>

definition after_first :: state where
  "after_first =
     \<lparr>kernels = [''python'' \<mapsto> 0], code_sessions = [''python'' \<mapsto> [''x = 1'']],
      files = Map.empty, started = 1, sent = [(0, ''x = 1'')]\<rparr>"

definition after_second :: state where
  "after_second =
     \<lparr>kernels = [''python'' \<mapsto> 0], code_sessions = [''python'' \<mapsto> [''x = 1'', ''y = 2'']],
      files = Map.empty, started = 1, sent = [(0, ''x = 1''), (0, ''x = 1'' @ nl @ ''y = 2'')]\<rparr>"


text \<open>An engine that answers with status \<open>error\<close>, and the state after \<open>1/0\<close> was run in
  order on it.\<close>

definition env_failing :: env where
  "env_failing =
     (env_ok 0 [] [])\<lparr>shell_reply :=
        After 1 (Some \<lparr>status = Some ''error'', evalue = Some ''division by zero''\<rparr>)\<rparr>"

definition after_failed :: state where
  "after_failed =
     \<lparr>kernels = [''python'' \<mapsto> 0], code_sessions = [''python'' \<mapsto> [''1/0'']],
      files = Map.empty, started = 1, sent = [(0, ''1/0'')]\<rparr>"


text \<open>Engines for the drain loop: one whose only result is an empty \<open>text/plain\<close>
  (the value of an object whose \<open>repr\<close> is empty), one that reports a traceback on the
  output channel, one that never answers, one that answers after 11 time units, and one that
  goes quiet after its \<open>busy\<close> message.\<close>

definition blank_result :: iopub_msg where
  "blank_result = (msg ''execute_result'')\<lparr>text_plain := Some []\<rparr>"

definition env_blank :: env where
  "env_blank = (env_ok 0 [] [])\<lparr>iopub_msgs := chan [busy, blank_result, idle]\<rparr>"

definition error_msg :: iopub_msg where
  "error_msg = (msg ''error'')\<lparr>traceback := Some [''Traceback'', ''NameError: x'']\<rparr>"

definition env_traceback :: env where
  "env_traceback = (env_ok 0 [] [])\<lparr>iopub_msgs := chan [busy, stream ''a'', error_msg, idle]\<rparr>"

definition env_silent :: env where
  "env_silent = (env_ok 0 [] [])\<lparr>shell_reply := Never\<rparr>"

definition env_slow :: env where
  "env_slow = (env_ok 0 [] [])\<lparr>shell_reply :=
     After 11 (Some \<lparr>status = Some ''ok'', evalue = None\<rparr>)\<rparr>"

definition env_stalled :: env where
  "env_stalled = (env_ok 0 [] [])\<lparr>iopub_msgs := chan [busy]\<rparr>"


text \<open>The state after \<open>x = 5\<close> was run, not in order, on a fresh Python engine.\<close>

definition after_binding :: state where
  "after_binding =
     \<lparr>kernels = [''python'' \<mapsto> 0], code_sessions = Map.empty, files = Map.empty,
      started = 1, sent = [(0, ''x = 5'')]\<rparr>"

definition after_print :: state where
  "after_print =
     \<lparr>kernels = [''python'' \<mapsto> 0], code_sessions = Map.empty, files = Map.empty,
      started = 1, sent = [(0, ''x = 5''), (0, ''print(x/0)'')]\<rparr>"


text \<open>A compiler run that leaves its binary next to the source, as the command's
  \<open>-o\<close> argument asks, and a working directory that already holds a file named
  \<open>temp_file\<close>.\<close>

definition env_gcc :: env where
  "env_gcc =
     (env_ok 0 ''hi'' [])\<lparr>run_command :=
        (\<lambda>command fs. (Inr (0, ''hi'', []), fs(''/tmp/tmpab12.c.out'' \<mapsto> File ''ELF'')))\<rparr>"

definition cluttered :: state where
  "cluttered = init\<lparr>files := [''temp_file'' \<mapsto> File ''notes'']\<rparr>"

text \<open>A working directory that holds a directory named \<open>temp_file\<close>.\<close>

definition with_directory :: state where
  "with_directory = init\<lparr>files := [''temp_file'' \<mapsto> Directory]\<rparr>"


text \<open>The entry of a block in the response of the batch view, when there is one.\<close>

definition batch_entry :: "((exn + response) \<times> state) option \<Rightarrow> string \<Rightarrow> entry option" where
  "batch_entry r block_id =
     (case r of
        Some (Inr (Response (ResultsBody overall) code), s) \<Rightarrow> overall block_id
      | _ \<Rightarrow> None)"

text \<open>Three Java blocks, the second a bare statement of one token; and three C blocks,
  the second of which exits with 1 and writes nothing to stderr.\<close>

definition java_batch :: "block list" where
  "java_batch =
     [\<lparr>blk_block_id = Some ''1'', blk_code = Some ''public class A {}''\<rparr>,
      \<lparr>blk_block_id = Some ''2'', blk_code = Some ''System.out.println(1);''\<rparr>,
      \<lparr>blk_block_id = Some ''3'', blk_code = Some ''public class B {}''\<rparr>]"

definition c_batch :: "block list" where
  "c_batch =
     [\<lparr>blk_block_id = Some ''1'', blk_code = Some ''int main(){return 0;}''\<rparr>,
      \<lparr>blk_block_id = Some ''2'', blk_code = Some ''int main(){return 1;}''\<rparr>,
      \<lparr>blk_block_id = Some ''3'', blk_code = Some ''int main(){return 0;}''\<rparr>]"

definition c_batch_envs :: "nat \<Rightarrow> env" where
  "c_batch_envs i = (if i = 1 then env_ok 1 [] [] else env_ok 0 ''hi'' [])"


section \<open>Auxiliary facts\<close>

lemmas eval_defs =
  post_def finish_def respond_def execute_code_def execute_code_with_jupyter_def
  get_kernel_name_def after_reply_def drain.simps handle_msg_def finalize_def placeholder_def
  timeout_message_def append_session_def Let_def init_def env_ok_def chan_def msg_def busy_def
  idle_def stream_def ok_reply_def

lemma join_snoc: "join sep (xs @ [x]) = (if xs = [] then x else join sep xs @ sep @ x)"
  by (induction sep xs rule: join.induct) auto

lemma compiled_prepare_frame:
  "compiled_prepare s e language code = Inl (out, l, s') \<or>
   compiled_prepare s e language code = Inr (command, l, s') \<Longrightarrow>
     code_sessions s' = code_sessions s \<and> kernels s' = kernels s \<and>
     started s' = started s \<and> sent s' = sent s"
  by (auto simp: compiled_prepare_def Let_def os_rename_def
           split: sum.splits option.splits if_splits)

lemma compiled_run_frame:
  "compiled_run e command l s = (out, l', s') \<Longrightarrow>
     code_sessions s' = code_sessions s \<and> kernels s' = kernels s \<and>
     started s' = started s \<and> sent s' = sent s"
  by (auto simp: compiled_run_def split: sum.splits prod.splits if_splits)

lemma compiled_body_frame:
  "compiled_body s e language code = (out, l, s') \<Longrightarrow>
     code_sessions s' = code_sessions s \<and> kernels s' = kernels s \<and>
     started s' = started s \<and> sent s' = sent s"
  unfolding compiled_body_def
  by (auto split: sum.splits prod.splits dest!: compiled_run_frame
           dest: compiled_prepare_frame [OF disjI1] compiled_prepare_frame [OF disjI2])

lemma os_remove_frame:
  "os_remove e s p = (x, s') \<Longrightarrow>
     code_sessions s' = code_sessions s \<and> kernels s' = kernels s \<and>
     started s' = started s \<and> sent s' = sent s"
  by (auto simp: os_remove_def split: option.splits node.splits)

lemma compiled_finally_frame:
  "compiled_finally e l s = (x, s') \<Longrightarrow>
     code_sessions s' = code_sessions s \<and> kernels s' = kernels s \<and>
     started s' = started s \<and> sent s' = sent s"
  by (auto simp: compiled_finally_def Let_def split: option.splits if_splits
           dest: os_remove_frame)

lemma execute_compiled_code_frame:
  "execute_compiled_code s e language code block_id = (r, s') \<Longrightarrow>
     code_sessions s' = code_sessions s \<and> kernels s' = kernels s \<and>
     started s' = started s \<and> sent s' = sent s"
  unfolding execute_compiled_code_def
  by (auto split: prod.splits option.splits dest!: compiled_body_frame compiled_finally_frame)

lemma execute_html_css_frame:
  "execute_html_css s e code = (out, s') \<Longrightarrow>
     code_sessions s' = code_sessions s \<and> kernels s' = kernels s \<and>
     started s' = started s \<and> sent s' = sent s"
  by (auto simp: execute_html_css_def Let_def split: sum.splits option.splits prod.splits if_splits)

lemma execute_code_with_jupyter_frame:
  "execute_code_with_jupyter s e language code block_id = Some (out, s') \<Longrightarrow>
     code_sessions s' = code_sessions s \<and> files s' = files s"
  by (auto simp: execute_code_with_jupyter_def Let_def split: option.splits if_splits)

lemma execute_code_sessions:
  "execute_code s e language code block_id = Some (r, s') \<Longrightarrow> code_sessions s' = code_sessions s"
  unfolding execute_code_def
  by (auto split: if_splits prod.splits
           dest: execute_compiled_code_frame execute_html_css_frame execute_code_with_jupyter_frame)

lemma code_sessions_append_session:
  "code_sessions (append_session s language code) language = Some (history s language @ [code])"
  by (auto simp: history_def append_session_def Let_def dom_def split: option.splits)

lemma history_append_session:
  "history (append_session s language code) language' =
     (if language' = language then history s language @ [code] else history s language')"
  by (auto simp: history_def append_session_def Let_def dom_def split: option.splits)

lemma post_ordered:
  assumes "language \<noteq> []" and "code \<noteq> []"
  shows "post s e (ordered language code block_id) =
           finish (execute_code (append_session s language code) e language
                     (join nl (history s language @ [code])) block_id)"
  using assms by (simp add: post_def Let_def code_sessions_append_session)

lemma post_ordered_history:
  assumes "language \<noteq> []" and "code \<noteq> []"
    and "post s e (ordered language code block_id) = Some (r, s')"
  shows "history s' language = history s language @ [code]"
proof -
  from assms obtain x where
    "execute_code (append_session s language code) e language
       (join nl (history s language @ [code])) block_id = Some (x, s')"
    by (auto simp: post_ordered finish_def)
  then have "code_sessions s' = code_sessions (append_session s language code)"
    by (rule execute_code_sessions)
  then show ?thesis
    by (simp add: history_def code_sessions_append_session)
qed


section \<open>Ordered execution\<close>

text \<open>
  C1. For every language, an ordered request (one that passes the validation of \<open>post\<close>:
  code and language non-empty) hands to \<open>execute_code\<close> the newline join of all snippets
  accumulated for the language, the new one included. Starting from an empty ledger,
  submitting \<open>a\<close> and then \<open>b\<close> executes \<open>a\<close>, newline, \<open>b\<close> on the second call, and a
  third snippet \<open>c\<close> executes \<open>a\<close>, newline, \<open>b\<close>, newline, \<open>c\<close>.
\<close>

theorem ordered_execution_runs_joined_history:
  assumes "language \<noteq> []" and "a \<noteq> []" and "b \<noteq> []" and "c \<noteq> []"
    and "code_sessions s0 language = None"
    and "post s0 e1 (ordered language a id1) = Some (r1, s1)"
    and "post s1 e2 (ordered language b id2) = Some (r2, s2)"
  shows "post s1 e2 (ordered language b id2) =
           finish (execute_code (append_session s1 language b) e2 language (a @ nl @ b) id2)
       \<and> post s2 e3 (ordered language c id3) =
           finish (execute_code (append_session s2 language c) e3 language
                     (a @ nl @ b @ nl @ c) id3)
       \<and> (\<forall>s e code block_id. code \<noteq> [] \<longrightarrow>
            post s e (ordered language code block_id) =
              finish (execute_code (append_session s language code) e language
                        (join nl (get_default (code_sessions s language) [] @ [code])) block_id))"
proof -
  have h0: "history s0 language = []"
    using assms(5) by (simp add: history_def)
  have h1: "history s1 language = [a]"
    using post_ordered_history [OF assms(1,2,6)] h0 by simp
  have h2: "history s2 language = [a, b]"
    using post_ordered_history [OF assms(1,3,7)] h1 by simp
  have second: "post s1 e2 (ordered language b id2) =
           finish (execute_code (append_session s1 language b) e2 language (a @ nl @ b) id2)"
    using post_ordered [OF assms(1,3), of s1 e2 id2] h1 by simp
  have third: "post s2 e3 (ordered language c id3) =
           finish (execute_code (append_session s2 language c) e3 language
                     (a @ nl @ b @ nl @ c) id3)"
    using post_ordered [OF assms(1,4), of s2 e3 id3] h2 by simp
  have general: "\<forall>s e code block_id. code \<noteq> [] \<longrightarrow>
            post s e (ordered language code block_id) =
              finish (execute_code (append_session s language code) e language
                        (join nl (get_default (code_sessions s language) [] @ [code])) block_id)"
    using post_ordered [OF assms(1)] by (simp add: history_def)
  from second third general show ?thesis by blast
qed

text \<open>On a fresh Python engine: \<open>x = 1\<close>, then \<open>y = 2\<close>, then \<open>print(x + y)\<close>. The third
  request sent to the engine is the three snippets joined by newlines.\<close>

theorem ordered_execution_runs_joined_history_witness:
  "post after_second (env_ok 0 ''3'' []) (ordered ''python'' ''print(x + y)'' None) =
     finish (execute_code (append_session after_second ''python'' ''print(x + y)'')
               (env_ok 0 ''3'' []) ''python''
               (''x = 1'' @ nl @ ''y = 2'' @ nl @ ''print(x + y)'') None)
   \<and> map_option (\<lambda>(r, s). (r, sent s))
        (post after_second (env_ok 0 ''3'' []) (ordered ''python'' ''print(x + y)'' None)) =
       Some (Inr (Response (OutputBody (Some ''3'')) 200),
             [(0, ''x = 1''), (0, ''x = 1'' @ nl @ ''y = 2''),
              (0, ''x = 1'' @ nl @ ''y = 2'' @ nl @ ''print(x + y)'')])"
proof -
  have first: "post init (env_ok 0 [] []) (ordered ''python'' ''x = 1'' None) =
                 Some (Inr (Response (OutputBody (Some placeholder)) 200), after_first)"
    by (simp add: eval_defs after_first_def)
  have second: "post after_first (env_ok 0 [] []) (ordered ''python'' ''y = 2'' None) =
                  Some (Inr (Response (OutputBody (Some placeholder)) 200), after_second)"
    by (simp add: eval_defs after_first_def after_second_def)
  have fresh: "code_sessions init ''python'' = None"
    by (simp add: init_def)
  have third: "post after_second (env_ok 0 ''3'' []) (ordered ''python'' ''print(x + y)'' None) =
     finish (execute_code (append_session after_second ''python'' ''print(x + y)'')
               (env_ok 0 ''3'' []) ''python''
               (''x = 1'' @ nl @ ''y = 2'' @ nl @ ''print(x + y)'') None)"
    using ordered_execution_runs_joined_history
            [of "''python''" "''x = 1''" "''y = 2''" "''print(x + y)''", OF _ _ _ _ fresh first second,
             of "env_ok 0 ''3'' []" None]
    by simp
  have trace: "map_option (\<lambda>(r, s). (r, sent s))
        (post after_second (env_ok 0 ''3'' []) (ordered ''python'' ''print(x + y)'' None)) =
       Some (Inr (Response (OutputBody (Some ''3'')) 200),
             [(0, ''x = 1''), (0, ''x = 1'' @ nl @ ''y = 2''),
              (0, ''x = 1'' @ nl @ ''y = 2'' @ nl @ ''print(x + y)'')])"
    unfolding third by (simp add: eval_defs after_second_def)
  from third trace show ?thesis by simp
qed


lemma append_session_frame:
  "kernels (append_session s language code) = kernels s \<and>
   started (append_session s language code) = started s \<and>
   files (append_session s language code) = files s \<and>
   sent (append_session s language code) = sent s"
  by (simp add: append_session_def Let_def)

lemma run_blocks_sessions:
  "run_blocks envs language i bs overall s = Some (r, s') \<Longrightarrow> code_sessions s' = code_sessions s"
proof (induction bs arbitrary: i overall s)
  case Nil
  then show ?case by simp
next
  case (Cons b bs)
  show ?case
  proof (cases "get_default (blk_code b) [] = [] \<or> get_default (blk_block_id b) [] = []")
    case True
    with Cons.prems have "run_blocks envs language (Suc i) bs overall s = Some (r, s')"
      by (simp add: Let_def)
    then show ?thesis by (rule Cons.IH)
  next
    case False
    with Cons.prems show ?thesis
      by (auto simp: Let_def split: option.splits sum.splits prod.splits
               dest!: execute_code_sessions Cons.IH)
  qed
qed

lemma post_history_grows:
  assumes "post s e request = Some (r, s')"
  shows "\<exists>more. history s' language = history s language @ more"
proof (cases "get_default (req_code request) [] = [] \<or> get_default (req_language request) [] = []")
  case True
  with assms show ?thesis by (simp add: post_def Let_def)
next
  case False
  show ?thesis
  proof (cases "execute_in_order request")
    case True
    with False assms obtain x where
      "execute_code (append_session s (get_default (req_language request) [])
                       (get_default (req_code request) []))
         e (get_default (req_language request) [])
         (join nl (get_default (code_sessions (append_session s (get_default (req_language request) [])
                       (get_default (req_code request) [])) (get_default (req_language request) [])) []))
         (req_block_id request) = Some (x, s')"
      by (auto simp: post_def Let_def finish_def)
    then have "code_sessions s' = code_sessions (append_session s (get_default (req_language request) [])
                       (get_default (req_code request) []))"
      by (rule execute_code_sessions)
    then have "history s' language = history (append_session s (get_default (req_language request) [])
                       (get_default (req_code request) [])) language"
      by (simp add: history_def)
    then show ?thesis by (simp add: history_append_session)
  next
    case unord: False
    with False assms obtain x where
      "execute_code s e (get_default (req_language request) []) (get_default (req_code request) [])
         (req_block_id request) = Some (x, s')"
      by (auto simp: post_def Let_def finish_def)
    then have "code_sessions s' = code_sessions s" by (rule execute_code_sessions)
    then show ?thesis by (simp add: history_def)
  qed
qed

lemma post_all_sessions:
  "post_all s envs code_blocks lang = Some (r, s') \<Longrightarrow> code_sessions s' = code_sessions s"
  by (auto simp: post_all_def Let_def split: if_splits dest: run_blocks_sessions)

lemma serve_history_grows:
  assumes "serve s c = Some s'"
  shows "\<exists>more. history s' language = history s language @ more"
proof (cases c)
  case (Execute e request)
  with assms obtain r where "post s e request = Some (r, s')" by auto
  then show ?thesis by (rule post_history_grows)
next
  case (ExecuteAll envs code_blocks lang)
  with assms obtain r where "post_all s envs code_blocks lang = Some (r, s')" by auto
  then have "code_sessions s' = code_sessions s" by (rule post_all_sessions)
  then show ?thesis by (simp add: history_def)
qed

lemma serve_all_history_grows:
  "serve_all s cs = Some s' \<Longrightarrow> \<exists>more. history s' language = history s language @ more"
proof (induction cs arbitrary: s)
  case Nil
  then show ?case by simp
next
  case (Cons c cs)
  from Cons.prems obtain s1 where s1: "serve s c = Some s1" and rest: "serve_all s1 cs = Some s'"
    by (auto split: option.splits)
  from serve_history_grows [OF s1] obtain m1 where "history s1 language = history s language @ m1"
    by blast
  moreover from Cons.IH [OF rest] obtain m2 where "history s' language = history s1 language @ m2"
    by blast
  ultimately have "history s' language = history s language @ (m1 @ m2)" by simp
  then show ?case by blast
qed


section \<open>A failed snippet stays in the ledger\<close>

text \<open>
  C10. An ordered request appends its snippet to the ledger before \<open>execute_code\<close> runs,
  and the snippet stays there whatever the outcome (a failure, or an exception that leaves
  the view). After any further calls, every ordered request for the language runs a
  program that contains the earlier snippet, behind everything accumulated before it.
\<close>

theorem failed_snippet_is_replayed:
  assumes "language \<noteq> []" and "code \<noteq> []" and "later \<noteq> []"
    and "post s e (ordered language code block_id) = Some (r, s1)"
    and "serve_all s1 calls = Some s2"
  shows "post s e (ordered language code block_id) =
           finish (execute_code (append_session s language code) e language
                     (join nl (history s language @ [code])) block_id)
       \<and> code_sessions (append_session s language code) language =
           Some (history s language @ [code])
       \<and> code_sessions s1 language = Some (history s language @ [code])
       \<and> (\<exists>more. post s2 e' (ordered language later block_id') =
             finish (execute_code (append_session s2 language later) e' language
                       (join nl (history s language @ [code] @ more @ [later])) block_id'))"
proof -
  have run: "post s e (ordered language code block_id) =
           finish (execute_code (append_session s language code) e language
                     (join nl (history s language @ [code])) block_id)"
    by (rule post_ordered [OF assms(1,2)])
  have before: "code_sessions (append_session s language code) language =
           Some (history s language @ [code])"
    by (rule code_sessions_append_session)
  from assms(4) run obtain x where
    "execute_code (append_session s language code) e language
       (join nl (history s language @ [code])) block_id = Some (x, s1)"
    by (auto simp: finish_def)
  then have "code_sessions s1 = code_sessions (append_session s language code)"
    by (rule execute_code_sessions)
  with before have kept: "code_sessions s1 language = Some (history s language @ [code])"
    by simp
  then have h1: "history s1 language = history s language @ [code]"
    by (simp add: history_def)
  from serve_all_history_grows [OF assms(5)] obtain more where
    "history s2 language = history s1 language @ more" by blast
  with h1 have "history s2 language @ [later] = history s language @ [code] @ more @ [later]"
    by simp
  with post_ordered [OF assms(1,3), of s2 e' block_id']
  have "post s2 e' (ordered language later block_id') =
             finish (execute_code (append_session s2 language later) e' language
                       (join nl (history s language @ [code] @ more @ [later])) block_id')"
    by simp
  then have replay: "\<exists>more. post s2 e' (ordered language later block_id') =
             finish (execute_code (append_session s2 language later) e' language
                       (join nl (history s language @ [code] @ more @ [later])) block_id')"
    by blast
  from run before kept replay show ?thesis by blast
qed


text \<open>\<open>1/0\<close> fails on a fresh Python engine; the next ordered request, \<open>print(1)\<close>,
  sends both lines to the engine.\<close>

theorem failed_snippet_is_replayed_witness:
  "post init env_failing (ordered ''python'' ''1/0'' None) =
     Some (Inr (Response (ErrorBody ''division by zero'') 500), after_failed)
   \<and> code_sessions after_failed ''python'' = Some [''1/0'']
   \<and> (\<exists>more. post after_failed (env_ok 0 ''1'' []) (ordered ''python'' ''print(1)'' None) =
         finish (execute_code (append_session after_failed ''python'' ''print(1)'')
                   (env_ok 0 ''1'' []) ''python''
                   (join nl ([''1/0''] @ more @ [''print(1)''])) None))
   \<and> map_option (\<lambda>(r, s). sent s)
        (post after_failed (env_ok 0 ''1'' []) (ordered ''python'' ''print(1)'' None)) =
       Some [(0, ''1/0''), (0, ''1/0'' @ nl @ ''print(1)'')]"
proof -
  have failed: "post init env_failing (ordered ''python'' ''1/0'' None) =
     Some (Inr (Response (ErrorBody ''division by zero'') 500), after_failed)"
    by (simp add: eval_defs env_failing_def after_failed_def)
  have nothing_more: "serve_all after_failed [] = Some after_failed"
    by simp
  have empty: "history init ''python'' = []"
    by (simp add: history_def init_def)
  from failed_snippet_is_replayed
         [of "''python''" "''1/0''" "''print(1)''", OF _ _ _ failed nothing_more,
          of "env_ok 0 ''1'' []" None]
  have kept: "code_sessions after_failed ''python'' = Some [''1/0'']"
    and replay: "\<exists>more. post after_failed (env_ok 0 ''1'' []) (ordered ''python'' ''print(1)'' None) =
         finish (execute_code (append_session after_failed ''python'' ''print(1)'')
                   (env_ok 0 ''1'' []) ''python''
                   (join nl ([''1/0''] @ more @ [''print(1)''])) None)"
    by (simp_all add: empty)
  have trace: "map_option (\<lambda>(r, s). sent s)
        (post after_failed (env_ok 0 ''1'' []) (ordered ''python'' ''print(1)'' None)) =
       Some [(0, ''1/0''), (0, ''1/0'' @ nl @ ''print(1)'')]"
    by (simp add: eval_defs after_failed_def)
  from failed kept replay trace show ?thesis by blast
qed


section \<open>The drain loop\<close>

lemma late_recv: "late t x = (recv t x = None)"
  by (cases x) auto

lemma handle_msg_keeps:
  "keeps_draining m \<Longrightarrow> handle_msg m acc = Inr (acc @ contribution m)"
  by (simp add: keeps_draining_def handle_msg_def contribution_def)

lemma drain_timeout:
  "recv 10 (iopub i) = None \<Longrightarrow> drain iopub i acc = Some (None, Some timeout_message)"
  by (subst drain.simps) simp

lemma drain_step:
  assumes "recv 10 (iopub i) = Some m" and "keeps_draining m"
  shows "drain iopub i acc = drain iopub (Suc i) (acc @ contribution m)"
proof -
  have "handle_msg m acc = Inr (acc @ contribution m)"
    using assms(2) by (rule handle_msg_keeps)
  moreover have "msg_type m = ''status'' \<Longrightarrow> \<exists>st. execution_state m = Some st \<and> st \<noteq> ''idle''"
    using assms(2) by (auto simp: keeps_draining_def split: option.splits)
  ultimately show ?thesis
    using assms(1) by (subst drain.simps) auto
qed

lemma drain_idle:
  assumes "recv 10 (iopub i) = Some m" and "is_idle m"
  shows "drain iopub i acc = Some (finalize acc)"
proof -
  have "handle_msg m acc = Inr acc"
    using assms(2) by (simp add: is_idle_def handle_msg_def)
  then show ?thesis
    using assms by (subst drain.simps) (simp add: is_idle_def)
qed

lemma drain_error:
  assumes "recv 10 (iopub i) = Some m" and "msg_type m = ''error''"
  shows "drain iopub i acc = Some (None, Some (join nl (get_default (traceback m) [])))"
proof -
  have "handle_msg m acc = Inl (None, Some (join nl (get_default (traceback m) [])))"
    using assms(2) by (simp add: handle_msg_def)
  then show ?thesis
    using assms(1) by (subst drain.simps) simp
qed

lemma drain_prefix:
  assumes "\<forall>j<length ms. recv 10 (iopub (i + j)) = Some (ms ! j) \<and> keeps_draining (ms ! j)"
  shows "drain iopub i acc = drain iopub (i + length ms) (acc @ fragments ms)"
  using assms
proof (induction ms arbitrary: i acc)
  case Nil
  then show ?case by (simp add: fragments_def)
next
  case (Cons m ms)
  from Cons.prems have head: "recv 10 (iopub i) = Some m" "keeps_draining m"
    by force+
  have tail: "\<forall>j<length ms. recv 10 (iopub (Suc i + j)) = Some (ms ! j) \<and> keeps_draining (ms ! j)"
  proof (intro allI impI)
    fix j assume "j < length ms"
    then have "Suc j < length (m # ms)" by simp
    with Cons.prems have "recv 10 (iopub (i + Suc j)) = Some ((m # ms) ! Suc j) \<and>
                          keeps_draining ((m # ms) ! Suc j)"
      by blast
    then show "recv 10 (iopub (Suc i + j)) = Some (ms ! j) \<and> keeps_draining (ms ! j)"
      by simp
  qed
  have "drain iopub i acc = drain iopub (Suc i) (acc @ contribution m)"
    using head by (rule drain_step)
  also have "\<dots> = drain iopub (Suc i + length ms) ((acc @ contribution m) @ fragments ms)"
    using tail by (rule Cons.IH)
  finally show ?case by (simp add: fragments_def)
qed

lemma drain_passes:
  assumes "\<forall>j<n. \<exists>m. recv 10 (iopub (i + j)) = Some m \<and> keeps_draining m"
  shows "\<exists>acc'. drain iopub i acc = drain iopub (i + n) acc'"
  using assms
proof (induction n arbitrary: i acc)
  case 0
  then show ?case by auto
next
  case (Suc n)
  from Suc.prems obtain m where head: "recv 10 (iopub i) = Some m" "keeps_draining m"
    by force
  have tail: "\<forall>j<n. \<exists>m. recv 10 (iopub (Suc i + j)) = Some m \<and> keeps_draining m"
  proof (intro allI impI)
    fix j assume "j < n"
    then have "Suc j < Suc n" by simp
    with Suc.prems have "\<exists>m. recv 10 (iopub (i + Suc j)) = Some m \<and> keeps_draining m"
      by blast
    then show "\<exists>m. recv 10 (iopub (Suc i + j)) = Some m \<and> keeps_draining m" by simp
  qed
  from Suc.IH [OF tail] obtain acc' where
    "drain iopub (Suc i) (acc @ contribution m) = drain iopub (Suc i + n) acc'" by blast
  moreover have "drain iopub i acc = drain iopub (Suc i) (acc @ contribution m)"
    using head by (rule drain_step)
  ultimately have "drain iopub i acc = drain iopub (i + Suc n) acc'" by simp
  then show ?case by blast
qed

lemma after_reply_ok: "replied_ok e \<Longrightarrow> after_reply e = drain (iopub_msgs e) 0 []"
  by (auto simp: replied_ok_def after_reply_def split: option.splits)

lemma after_reply_late:
  "late 10 (shell_reply e) \<Longrightarrow> after_reply e = Some (None, Some timeout_message)"
  by (simp add: late_recv after_reply_def)

lemma jupyter_outcome:
  "kernel_available s e language \<Longrightarrow>
     map_option fst (execute_code_with_jupyter s e language code block_id) = after_reply e"
  by (auto simp: kernel_available_def execute_code_with_jupyter_def get_kernel_name_def
                 Let_def option.map_comp comp_def option.map_ident
           split: option.splits if_splits)

text \<open>
  C2, amended. When the control channel answers \<open>ok\<close>, the loop reads the output channel
  up to the first \<open>idle\<close> status or \<open>error\<close> message. An \<open>execute_result\<close> adds its
  \<open>text/plain\<close> and a \<open>stream\<close> its \<open>text\<close>. On \<open>idle\<close> the call succeeds with the
  fragments joined by newlines, or with the placeholder when that joined text is empty
  (no fragment, or a single empty one). On \<open>error\<close> it fails at once with the traceback
  lines joined by newlines.
\<close>

theorem drain_collects_until_idle_or_error:
  assumes "kernel_available s e language" and "replied_ok e"
    and "\<forall>i<length ms. recv 10 (iopub_msgs e i) = Some (ms ! i) \<and> keeps_draining (ms ! i)"
    and "recv 10 (iopub_msgs e (length ms)) = Some final"
  shows "(is_idle final \<longrightarrow>
            map_option fst (execute_code_with_jupyter s e language code block_id) =
              Some (Some (if join nl (fragments ms) = [] then placeholder
                          else join nl (fragments ms)), None))
       \<and> (msg_type final = ''error'' \<longrightarrow>
            map_option fst (execute_code_with_jupyter s e language code block_id) =
              Some (None, Some (join nl (get_default (traceback final) []))))"
proof -
  have "map_option fst (execute_code_with_jupyter s e language code block_id) =
          drain (iopub_msgs e) 0 []"
    using assms(1,2) by (simp add: jupyter_outcome after_reply_ok)
  also have "\<dots> = drain (iopub_msgs e) (0 + length ms) ([] @ fragments ms)"
    using assms(3) by (intro drain_prefix) simp
  finally have run: "map_option fst (execute_code_with_jupyter s e language code block_id) =
          drain (iopub_msgs e) (length ms) (fragments ms)"
    by simp
  show ?thesis
    using assms(4) by (auto simp: run drain_idle drain_error finalize_def)
qed

text \<open>The claim as first stated fails on a result whose \<open>text/plain\<close> is empty: one
  fragment was collected, yet the output is the placeholder and not the joined text.\<close>

theorem placeholder_for_empty_fragment_counterexample:
  "map_option fst (execute_code_with_jupyter init env_blank ''python'' ''A()'' None) =
     Some (Some placeholder, None)
   \<and> fragments [busy, blank_result] = [[]]
   \<and> map_option fst (execute_code_with_jupyter init env_blank ''python'' ''A()'' None) \<noteq>
       Some (spec_finalize (fragments [busy, blank_result]))"
  by (simp add: eval_defs env_blank_def blank_result_def fragments_def contribution_def
                spec_finalize_def)

theorem drain_collects_until_idle_or_error_witness:
  "map_option fst (execute_code_with_jupyter init (env_ok 0 ''4'' []) ''python'' ''2+2'' None) =
     Some (Some ''4'', None)
   \<and> map_option fst (execute_code_with_jupyter init env_blank ''python'' ''A()'' None) =
     Some (Some placeholder, None)
   \<and> map_option fst (execute_code_with_jupyter init env_traceback ''python'' ''x'' None) =
     Some (None, Some (''Traceback'' @ nl @ ''NameError: x''))"
proof -
  have avail: "kernel_available init e ''python''" if "kernel_start e = None" for e
    using that by (simp add: kernel_available_def get_kernel_name_def)
  have a: "map_option fst (execute_code_with_jupyter init (env_ok 0 ''4'' []) ''python'' ''2+2'' None) =
     Some (Some ''4'', None)"
    using drain_collects_until_idle_or_error
            [of init "env_ok 0 ''4'' []" "''python''" "[busy, stream ''4'']" idle "''2+2''" None]
    by (simp add: avail env_ok_def replied_ok_def ok_reply_def chan_def less_Suc_eq
                  keeps_draining_def is_idle_def busy_def idle_def stream_def msg_def
                  fragments_def contribution_def)
  have b: "map_option fst (execute_code_with_jupyter init env_blank ''python'' ''A()'' None) =
     Some (Some placeholder, None)"
    using drain_collects_until_idle_or_error
            [of init env_blank "''python''" "[busy, blank_result]" idle "''A()''" None]
    by (simp add: avail env_blank_def env_ok_def replied_ok_def ok_reply_def chan_def less_Suc_eq
                  keeps_draining_def is_idle_def busy_def idle_def blank_result_def msg_def
                  fragments_def contribution_def)
  have c: "map_option fst (execute_code_with_jupyter init env_traceback ''python'' ''x'' None) =
     Some (None, Some (''Traceback'' @ nl @ ''NameError: x''))"
    using drain_collects_until_idle_or_error
            [of init env_traceback "''python''" "[busy, stream ''a'']" error_msg "''x''" None]
    by (simp add: avail env_traceback_def env_ok_def replied_ok_def ok_reply_def chan_def
                  less_Suc_eq keeps_draining_def busy_def stream_def error_msg_def msg_def)
  from a b c show ?thesis by blast
qed


section \<open>Timeouts of the interactive pipeline\<close>

text \<open>
  C7. Every read of the interactive pipeline waits at most 10 time units. When an engine
  is reached and its reply on the control channel does not arrive within that bound, or
  when the reply is \<open>ok\<close> and some read of the output channel does not get its message
  within the bound (the reads before it having kept the loop going), the call returns the
  execution-timeout failure.
\<close>

theorem interactive_timeout_is_reported:
  assumes "kernel_available s e language"
  shows "(late 10 (shell_reply e) \<longrightarrow>
            map_option fst (execute_code_with_jupyter s e language code block_id) =
              Some (None, Some timeout_message))
       \<and> (replied_ok e \<and>
          (\<forall>i<n. \<exists>m. recv 10 (iopub_msgs e i) = Some m \<and> keeps_draining m) \<and>
          late 10 (iopub_msgs e n) \<longrightarrow>
            map_option fst (execute_code_with_jupyter s e language code block_id) =
              Some (None, Some timeout_message))"
proof (intro conjI impI)
  assume "late 10 (shell_reply e)"
  then show "map_option fst (execute_code_with_jupyter s e language code block_id) =
               Some (None, Some timeout_message)"
    using assms by (simp add: jupyter_outcome after_reply_late)
next
  assume h: "replied_ok e \<and>
          (\<forall>i<n. \<exists>m. recv 10 (iopub_msgs e i) = Some m \<and> keeps_draining m) \<and>
          late 10 (iopub_msgs e n)"
  then have "\<forall>j<n. \<exists>m. recv 10 (iopub_msgs e (0 + j)) = Some m \<and> keeps_draining m"
    by simp
  from drain_passes [OF this] obtain acc' where
    "drain (iopub_msgs e) 0 [] = drain (iopub_msgs e) (0 + n) acc'" by blast
  moreover from h have "recv 10 (iopub_msgs e n) = None"
    by (simp add: late_recv)
  ultimately have "drain (iopub_msgs e) 0 [] = Some (None, Some timeout_message)"
    by (simp add: drain_timeout)
  with h show "map_option fst (execute_code_with_jupyter s e language code block_id) =
               Some (None, Some timeout_message)"
    using assms by (simp add: jupyter_outcome after_reply_ok)
qed

text \<open>An engine that never replies, one that replies after 11 units, and one that goes
  quiet after its first output message.\<close>

theorem interactive_timeout_is_reported_witness:
  "map_option fst (execute_code_with_jupyter init env_silent ''python'' ''while True: pass'' None) =
     Some (None, Some timeout_message)
   \<and> map_option fst (execute_code_with_jupyter init env_slow ''python'' ''while True: pass'' None) =
     Some (None, Some timeout_message)
   \<and> map_option fst (execute_code_with_jupyter init env_stalled ''python'' ''while True: pass'' None) =
     Some (None, Some timeout_message)"
proof -
  have avail: "kernel_available init e ''python''" if "kernel_start e = None" for e
    using that by (simp add: kernel_available_def get_kernel_name_def)
  have a: "map_option fst (execute_code_with_jupyter init env_silent ''python'' ''while True: pass'' None) =
     Some (None, Some timeout_message)"
    using interactive_timeout_is_reported
            [of init env_silent "''python''" "''while True: pass''" None 0]
    by (simp add: avail env_silent_def env_ok_def)
  have b: "map_option fst (execute_code_with_jupyter init env_slow ''python'' ''while True: pass'' None) =
     Some (None, Some timeout_message)"
    using interactive_timeout_is_reported
            [of init env_slow "''python''" "''while True: pass''" None 0]
    by (simp add: avail env_slow_def env_ok_def)
  have c: "map_option fst (execute_code_with_jupyter init env_stalled ''python'' ''while True: pass'' None) =
     Some (None, Some timeout_message)"
    using interactive_timeout_is_reported
            [of init env_stalled "''python''" "''while True: pass''" None 1]
    by (simp add: avail env_stalled_def env_ok_def replied_ok_def ok_reply_def chan_def
                  keeps_draining_def busy_def msg_def)
  from a b c show ?thesis by blast
qed


section \<open>The kernel pool\<close>

lemma jupyter_create:
  assumes "get_kernel_name language \<noteq> None" and "kernels s language = None"
    and "kernel_start e = None"
    and "execute_code_with_jupyter s e language code block_id = Some (out, s')"
  shows "kernels s' = (kernels s)(language \<mapsto> started s) \<and> started s' = Suc (started s) \<and>
         sent s' = sent s @ [(started s, code)]"
  using assms
  by (auto simp: execute_code_with_jupyter_def get_kernel_name_def Let_def
           split: option.splits if_splits)

lemma jupyter_reuse:
  assumes "get_kernel_name language \<noteq> None" and "kernels s language = Some k"
    and "execute_code_with_jupyter s e language code block_id = Some (out, s')"
  shows "kernels s' = kernels s \<and> started s' = started s \<and> sent s' = sent s @ [(k, code)]"
  using assms
  by (auto simp: execute_code_with_jupyter_def get_kernel_name_def Let_def
           split: option.splits if_splits)

lemma jupyter_cases:
  assumes "execute_code_with_jupyter s e language code block_id = Some (out, s')"
  shows "(kernels s' = kernels s \<and> started s' = started s) \<or>
         (kernels s language = None \<and> kernels s' = (kernels s)(language \<mapsto> started s) \<and>
          started s' = Suc (started s))"
  using assms
  by (auto simp: execute_code_with_jupyter_def Let_def split: option.splits if_splits)

lemma pool_ok_create:
  assumes "pool_ok s" and "kernels s language = None"
    and "kernels s' = (kernels s)(language \<mapsto> started s)" and "started s' = Suc (started s)"
  shows "pool_ok s'"
proof -
  from assms(1) have fin: "finite (dom (kernels s))" and cnt: "card (dom (kernels s)) = started s"
    and old: "\<forall>k \<in> ran (kernels s). k < started s"
    by (simp_all add: pool_ok_def)
  have fresh: "language \<notin> dom (kernels s)"
    using assms(2) by (simp add: dom_def)
  have "dom (kernels s') = insert language (dom (kernels s))"
    using assms(3) by simp
  with fin cnt fresh assms(4) have a: "finite (dom (kernels s'))"
    and b: "card (dom (kernels s')) = started s'"
    by simp_all
  have "ran (kernels s') = insert (started s) (ran (kernels s))"
    using assms(2,3) by simp
  with old assms(4) have c: "\<forall>k \<in> ran (kernels s'). k < started s'"
    by (auto intro: less_SucI)
  from a b c show ?thesis by (simp add: pool_ok_def)
qed

lemma pool_ok_same:
  "pool_ok s \<Longrightarrow> kernels s' = kernels s \<Longrightarrow> started s' = started s \<Longrightarrow> pool_ok s'"
  by (simp add: pool_ok_def)

lemma jupyter_pool:
  assumes "execute_code_with_jupyter s e language code block_id = Some (out, s')"
  shows "(kernels s l = Some k \<longrightarrow> kernels s' l = Some k) \<and> (pool_ok s \<longrightarrow> pool_ok s')"
  using jupyter_cases [OF assms]
  by (auto intro: pool_ok_create pool_ok_same)

lemma execute_code_pool:
  assumes "execute_code s e language code block_id = Some (r, s')"
  shows "(kernels s l = Some k \<longrightarrow> kernels s' l = Some k) \<and> (pool_ok s \<longrightarrow> pool_ok s')"
proof -
  consider (compiled) "execute_compiled_code s e language code block_id = (r, s')"
    | (markup) out where "execute_html_css s e code = (out, s')"
    | (interactive) out where "execute_code_with_jupyter s e language code block_id = Some (out, s')"
    using assms by (auto simp: execute_code_def split: if_splits prod.splits)
  then show ?thesis
  proof cases
    case compiled
    from execute_compiled_code_frame [OF this] show ?thesis
      by (auto intro: pool_ok_same)
  next
    case markup
    from execute_html_css_frame [OF this] show ?thesis
      by (auto intro: pool_ok_same)
  next
    case interactive
    then show ?thesis by (rule jupyter_pool)
  qed
qed

lemma pool_ok_append_session: "pool_ok (append_session s language code) = pool_ok s"
  by (simp add: pool_ok_def append_session_frame)

lemma post_pool:
  assumes "post s e request = Some (r, s')"
  shows "(kernels s l = Some k \<longrightarrow> kernels s' l = Some k) \<and> (pool_ok s \<longrightarrow> pool_ok s')"
proof (cases "get_default (req_code request) [] = [] \<or> get_default (req_language request) [] = []")
  case True
  with assms show ?thesis by (simp add: post_def Let_def)
next
  case False
  then obtain s0 c x where run: "execute_code s0 e (get_default (req_language request) []) c
                                   (req_block_id request) = Some (x, s')"
    and s0: "s0 = s \<or> s0 = append_session s (get_default (req_language request) [])
                               (get_default (req_code request) [])"
    using assms by (auto simp: post_def Let_def finish_def split: if_splits)
  from s0 have "kernels s0 = kernels s" and "pool_ok s0 = pool_ok s"
    by (auto simp: append_session_frame pool_ok_append_session)
  with execute_code_pool [OF run, of l k] show ?thesis by simp
qed

lemma run_blocks_pool:
  "run_blocks envs language i bs overall s = Some (r, s') \<Longrightarrow>
     (kernels s l = Some k \<longrightarrow> kernels s' l = Some k) \<and> (pool_ok s \<longrightarrow> pool_ok s')"
proof (induction bs arbitrary: i overall s)
  case Nil
  then show ?case by simp
next
  case (Cons b bs)
  show ?case
  proof (cases "get_default (blk_code b) [] = [] \<or> get_default (blk_block_id b) [] = []")
    case True
    with Cons.prems have "run_blocks envs language (Suc i) bs overall s = Some (r, s')"
      by (simp add: Let_def)
    then show ?thesis by (rule Cons.IH)
  next
    case False
    with Cons.prems obtain x s1 where
      run: "execute_code s (envs i) language (get_default (blk_code b) [])
              (Some (get_default (blk_block_id b) [])) = Some (x, s1)"
      by (auto simp: Let_def split: option.splits)
    note step = execute_code_pool [OF run, of l k]
    show ?thesis
    proof (cases x)
      case (Inl ex)
      with False Cons.prems run have "s' = s1" by (simp add: Let_def)
      with step show ?thesis by simp
    next
      case (Inr out)
      obtain result error where out: "out = (result, error)" by (cases out)
      with Inr False Cons.prems run obtain overall' where
        "run_blocks envs language (Suc i) bs overall' s1 = Some (r, s')"
        by (simp add: Let_def)
      from Cons.IH [OF this] step show ?thesis by simp
    qed
  qed
qed

lemma serve_pool:
  assumes "serve s c = Some s'"
  shows "(kernels s l = Some k \<longrightarrow> kernels s' l = Some k) \<and> (pool_ok s \<longrightarrow> pool_ok s')"
proof (cases c)
  case (Execute e request)
  with assms obtain r where "post s e request = Some (r, s')" by auto
  then show ?thesis by (rule post_pool)
next
  case (ExecuteAll envs code_blocks lang)
  with assms obtain r where all: "post_all s envs code_blocks lang = Some (r, s')" by auto
  show ?thesis
  proof (cases "code_blocks = [] \<or> get_default lang [] = []")
    case True
    with all show ?thesis by (simp add: post_all_def Let_def)
  next
    case False
    with all obtain x where
      "run_blocks envs (get_default lang []) 0 code_blocks Map.empty s = Some (x, s')"
      by (auto simp: post_all_def Let_def)
    then show ?thesis by (rule run_blocks_pool)
  qed
qed

lemma serve_all_pool:
  "serve_all s cs = Some s' \<Longrightarrow>
     (kernels s l = Some k \<longrightarrow> kernels s' l = Some k) \<and> (pool_ok s \<longrightarrow> pool_ok s')"
proof (induction cs arbitrary: s)
  case Nil
  then show ?case by simp
next
  case (Cons c cs)
  from Cons.prems obtain s1 where s1: "serve s c = Some s1" and rest: "serve_all s1 cs = Some s'"
    by (auto split: option.splits)
  from serve_pool [OF s1, of l k] Cons.IH [OF rest] show ?case by simp
qed

lemma pool_ok_init: "pool_ok init"
  by (simp add: pool_ok_def init_def)

text \<open>
  C5. The pool holds at most one kernel per language. A language's kernel is started on
  the first interactive request for it; a request for a pooled language starts nothing and
  sends its code to the pooled kernel; no call of either view, whatever its outcome, ever
  changes or removes a pool entry; and from the initial state on, exactly as many kernels
  have been started as the pool has languages. (A kernel start that raises is taken to
  leave no kernel behind.)
\<close>

theorem kernel_pool_one_per_language:
  "(get_kernel_name language \<noteq> None \<and> kernels s language = None \<and> kernel_start e = None \<and>
    execute_code_with_jupyter s e language code block_id = Some (out, s') \<longrightarrow>
      kernels s' = (kernels s)(language \<mapsto> started s) \<and> started s' = Suc (started s) \<and>
      sent s' = sent s @ [(started s, code)])
   \<and> (get_kernel_name language \<noteq> None \<and> kernels s language = Some k \<and>
      execute_code_with_jupyter s e language code block_id = Some (out, s') \<longrightarrow>
        kernels s' = kernels s \<and> started s' = started s \<and> sent s' = sent s @ [(k, code)])
   \<and> (serve_all s calls = Some t \<and> kernels s language = Some k \<longrightarrow>
        kernels t language = Some k)
   \<and> (serve_all init calls = Some u \<longrightarrow>
        finite (dom (kernels u)) \<and> card (dom (kernels u)) = started u \<and>
        (\<forall>k \<in> ran (kernels u). k < started u))"
proof -
  have create: "get_kernel_name language \<noteq> None \<and> kernels s language = None \<and>
      kernel_start e = None \<and>
      execute_code_with_jupyter s e language code block_id = Some (out, s') \<longrightarrow>
        kernels s' = (kernels s)(language \<mapsto> started s) \<and> started s' = Suc (started s) \<and>
        sent s' = sent s @ [(started s, code)]"
    using jupyter_create [of language s e code block_id out s'] by blast
  have reuse: "get_kernel_name language \<noteq> None \<and> kernels s language = Some k \<and>
      execute_code_with_jupyter s e language code block_id = Some (out, s') \<longrightarrow>
        kernels s' = kernels s \<and> started s' = started s \<and> sent s' = sent s @ [(k, code)]"
    using jupyter_reuse [of language s k e code block_id out s'] by blast
  have kept: "serve_all s calls = Some t \<and> kernels s language = Some k \<longrightarrow>
        kernels t language = Some k"
    using serve_all_pool [of s calls t language k] by blast
  have counted: "serve_all init calls = Some u \<longrightarrow>
        finite (dom (kernels u)) \<and> card (dom (kernels u)) = started u \<and>
        (\<forall>k \<in> ran (kernels u). k < started u)"
  proof
    assume "serve_all init calls = Some u"
    from serve_all_pool [OF this] pool_ok_init have "pool_ok u" by simp
    then show "finite (dom (kernels u)) \<and> card (dom (kernels u)) = started u \<and>
        (\<forall>k \<in> ran (kernels u). k < started u)"
      by (simp add: pool_ok_def)
  qed
  from create reuse kept counted show ?thesis by blast
qed


text \<open>\<open>x = 5\<close> starts the Python kernel; \<open>print(x/0)\<close> then fails on that same kernel,
  which stays in the pool.\<close>

theorem kernel_pool_one_per_language_witness:
  "execute_code_with_jupyter init (env_ok 0 [] []) ''python'' ''x = 5'' None =
     Some ((Some placeholder, None), after_binding)
   \<and> execute_code_with_jupyter after_binding env_failing ''python'' ''print(x/0)'' None =
     Some ((None, Some ''division by zero''), after_print)
   \<and> kernels after_binding = (kernels init)(''python'' \<mapsto> started init)
   \<and> started after_binding = Suc (started init)
   \<and> sent after_binding = sent init @ [(started init, ''x = 5'')]
   \<and> kernels after_print = kernels after_binding
   \<and> started after_print = started after_binding
   \<and> sent after_print = sent after_binding @ [(0, ''print(x/0)'')]
   \<and> kernels after_print ''python'' = Some 0
   \<and> card (dom (kernels after_print)) = started after_print"
proof -
  have name: "get_kernel_name ''python'' \<noteq> None"
    by (simp add: get_kernel_name_def)
  have first: "execute_code_with_jupyter init (env_ok 0 [] []) ''python'' ''x = 5'' None =
     Some ((Some placeholder, None), after_binding)"
    by (simp add: eval_defs after_binding_def)
  have second: "execute_code_with_jupyter after_binding env_failing ''python'' ''print(x/0)'' None =
     Some ((None, Some ''division by zero''), after_print)"
    by (simp add: eval_defs env_failing_def after_binding_def after_print_def)
  have served: "serve_all after_binding [Execute env_failing (unordered ''python'' ''print(x/0)'' None)] =
     Some after_print"
    by (simp add: eval_defs env_failing_def after_binding_def after_print_def)
  have from_init: "serve_all init [Execute (env_ok 0 [] []) (unordered ''python'' ''x = 5'' None),
                     Execute env_failing (unordered ''python'' ''print(x/0)'' None)] =
     Some after_print"
    by (simp add: eval_defs env_failing_def after_binding_def after_print_def)
  have pooled: "kernels after_binding ''python'' = Some 0"
    by (simp add: after_binding_def)
  have fresh: "kernels init ''python'' = None" "kernel_start (env_ok 0 [] []) = None"
    by (simp_all add: init_def env_ok_def)
  from kernel_pool_one_per_language
         [where language = "''python''" and s = init and e = "env_ok 0 [] []"
            and code = "''x = 5''" and block_id = None and out = "(Some placeholder, None)"
            and s' = after_binding and u = after_print
            and calls = "[Execute (env_ok 0 [] []) (unordered ''python'' ''x = 5'' None),
                          Execute env_failing (unordered ''python'' ''print(x/0)'' None)]"]
       name first fresh from_init
  have a: "kernels after_binding = (kernels init)(''python'' \<mapsto> started init)
       \<and> started after_binding = Suc (started init)
       \<and> sent after_binding = sent init @ [(started init, ''x = 5'')]
       \<and> card (dom (kernels after_print)) = started after_print"
    by blast
  from kernel_pool_one_per_language
         [where language = "''python''" and s = after_binding and e = env_failing
            and code = "''print(x/0)''" and block_id = None
            and out = "(None, Some ''division by zero'')" and s' = after_print and k = 0
            and t = after_print
            and calls = "[Execute env_failing (unordered ''python'' ''print(x/0)'' None)]"]
       name second pooled served
  have b: "kernels after_print = kernels after_binding
       \<and> started after_print = started after_binding
       \<and> sent after_print = sent after_binding @ [(0, ''print(x/0)'')]
       \<and> kernels after_print ''python'' = Some 0"
    by blast
  from first second a b show ?thesis by blast
qed


section \<open>The compiled pipeline\<close>

lemmas compiled_defs =
  execute_compiled_code_def compiled_body_def compiled_prepare_def compiled_run_def
  compiled_finally_def get_file_extension_def get_execution_command_def java_file_name_def
  str_split_def space_len_def whitespace_def path_exists_def os_remove_def os_rename_def

lemma compiled_prepare_ready:
  assumes "compiled_prepare s e language code = Inr (command, l, ready)"
  shows "language \<in> set [''cpp'', ''java'', ''c''] \<and> (\<exists>p. tmp_file_path l = Some p)"
  using assms
  by (auto simp: compiled_prepare_def get_execution_command_def Let_def
           split: sum.splits option.splits if_splits)

lemma compiled_run_locals: "fst (snd (compiled_run e command l s)) = l"
  by (auto simp: compiled_run_def split: prod.splits sum.splits)

lemma compiled_run_outcome:
  assumes "run_command e command (files s) = (Inr (returncode, stdout, stderr), fs)"
  shows "compiled_run e command l s =
           (if returncode \<noteq> 0 then (None, Some stderr) else (Some stdout, None),
            l, s\<lparr>files := fs\<rparr>)"
  using assms by (simp add: compiled_run_def)

lemma execute_compiled_code_quiet:
  assumes "compiled_body s e language code = (out, l, mid)" and "cleanup_quiet e l mid"
  shows "execute_compiled_code s e language code block_id =
           (Inr out, snd (compiled_finally e l mid))"
  using assms
  by (cases "compiled_finally e l mid")
     (simp add: execute_compiled_code_def cleanup_quiet_def)

text \<open>What the pipeline does with the exit code when its cleanup raises nothing: the
  success pair with stdout for 0, the failure pair with stderr otherwise.\<close>

lemma compiled_outcome_with_quiet_cleanup:
  assumes "compiled_prepare s e language code = Inr (command, l, ready)"
    and "run_command e command (files ready) = (Inr (returncode, stdout, stderr), fs)"
    and "cleanup_quiet e l (ready\<lparr>files := fs\<rparr>)"
  shows "fst (execute_compiled_code s e language code block_id) =
           Inr (if returncode \<noteq> 0 then (None, Some stderr) else (Some stdout, None))"
proof -
  have "compiled_body s e language code =
          (if returncode \<noteq> 0 then (None, Some stderr) else (Some stdout, None),
           l, ready\<lparr>files := fs\<rparr>)"
    using assms(1) compiled_run_outcome [OF assms(2)] by (simp add: compiled_body_def)
  from execute_compiled_code_quiet [OF this assms(3)] show ?thesis by simp
qed

text \<open>
  C3. The claim does not hold of the code. In a working directory that holds a directory
  named \<open>temp_file\<close>, a C snippet is compiled and run, and the child process completes:
  the \<open>try\<close> body ends with the success pair holding stdout for exit code 0, and with the
  failure pair holding stderr for exit code 1. The \<open>finally\<close> block then finds that
  \<open>temp_file\<close> exists and calls \<open>os.remove\<close> on it, which raises; the \<open>OSError\<close>
  replaces the pending return and leaves \<open>execute_compiled_code\<close> and \<open>post\<close>, so the
  outcome is neither pair.
\<close>

theorem cleanup_exception_replaces_outcome:
  "fst (compiled_body with_directory (env_ok 0 ''hi'' []) ''c'' ''int main(){}'') =
     (Some ''hi'', None)
   \<and> fst (execute_compiled_code with_directory (env_ok 0 ''hi'' []) ''c'' ''int main(){}'' None) =
     Inl (OSError (''[Errno 21] Is a directory: '' @ [CHR 0x27] @ ''temp_file'' @ [CHR 0x27]))
   \<and> fst (compiled_body with_directory (env_ok 1 [] ''boom'') ''c'' ''int main(){}'') =
     (None, Some ''boom'')
   \<and> fst (execute_compiled_code with_directory (env_ok 1 [] ''boom'') ''c'' ''int main(){}'' None) =
     Inl (OSError (''[Errno 21] Is a directory: '' @ [CHR 0x27] @ ''temp_file'' @ [CHR 0x27]))
   \<and> map_option fst
        (post with_directory (env_ok 0 ''hi'' []) (unordered ''c'' ''int main(){}'' None)) =
     Some (Inl (OSError (''[Errno 21] Is a directory: '' @ [CHR 0x27] @ ''temp_file'' @ [CHR 0x27])))"
  by (simp add: compiled_defs post_def finish_def execute_code_def env_ok_def with_directory_def
                init_def Let_def)


section \<open>Unsupported languages\<close>

lemma unconfigured_tables:
  assumes "language \<notin> set configured_languages"
  shows "get_kernel_name language = None" and "get_execution_command language path = None"
    and "get_file_extension language = []" and "language \<noteq> ''java''"
    and "language \<notin> set [''cpp'', ''java'', ''c'']" and "language \<notin> set [''html'', ''css'']"
  using assms
  by (auto simp: configured_languages_def get_kernel_name_def get_execution_command_def
                 get_file_extension_def)

lemma unsupported_jupyter:
  assumes "language \<notin> set configured_languages"
  shows "execute_code_with_jupyter s e language code block_id =
           Some ((None, Some (''Unsupported language: '' @ language)), s)"
  using unconfigured_tables(1) [OF assms] by (simp add: execute_code_with_jupyter_def)

lemma unsupported_execute_code:
  assumes "language \<notin> set configured_languages"
  shows "execute_code s e language code block_id =
           Some (Inr (None, Some (''Unsupported language: '' @ language)), s)"
  using unconfigured_tables(5,6) [OF assms] unsupported_jupyter [OF assms]
  by (simp add: execute_code_def)

lemma unsupported_compiled:
  assumes "language \<notin> set configured_languages"
    and "tmp_alloc e = Inr stem" and "write_error e = None"
    and "compiled_body s e language code = (out, l, mid)" and "cleanup_quiet e l mid"
  shows "fst (execute_compiled_code s e language code block_id) =
           Inr (None, Some (''Unsupported language: '' @ language))"
proof -
  have "fst (compiled_body s e language code) =
          (None, Some (''Unsupported language: '' @ language))"
    using unconfigured_tables(2,3,4) [OF assms(1)] assms(2,3)
    by (simp add: compiled_body_def compiled_prepare_def Let_def)
  with assms(4) have "out = (None, Some (''Unsupported language: '' @ language))" by simp
  with execute_compiled_code_quiet [OF assms(4,5)] show ?thesis by simp
qed

text \<open>
  C8. For a language that no table or dispatch list names, \<open>execute_code\<close> returns the
  failure \<open>Unsupported language:\<close> followed by the language, and changes nothing; a valid
  request for it is answered with that error. The interactive pipeline is the branch
  that \<open>execute_code\<close> takes; the compiled pipeline, called with such a language, returns
  the same failure once its temp file is written, provided its cleanup raises nothing.
\<close>

theorem unsupported_language_is_named:
  assumes "language \<notin> set configured_languages"
  shows "execute_code s e language code block_id =
           Some (Inr (None, Some (''Unsupported language: '' @ language)), s)
       \<and> execute_code_with_jupyter s e language code block_id =
           Some ((None, Some (''Unsupported language: '' @ language)), s)
       \<and> (tmp_alloc e = Inr stem \<and> write_error e = None \<and>
          compiled_body s e language code = (out, l, mid) \<and> cleanup_quiet e l mid \<longrightarrow>
            fst (execute_compiled_code s e language code block_id) =
              Inr (None, Some (''Unsupported language: '' @ language)))
       \<and> (code \<noteq> [] \<and> language \<noteq> [] \<longrightarrow>
            post s e (unordered language code block_id) =
              Some (Inr (Response (ErrorBody (''Unsupported language: '' @ language)) 500), s)
            \<and> map_option fst (post s e (ordered language code block_id)) =
              Some (Inr (Response (ErrorBody (''Unsupported language: '' @ language)) 500)))"
proof -
  note main = unsupported_execute_code [OF assms, of s e code block_id]
  have compiled: "tmp_alloc e = Inr stem \<and> write_error e = None \<and>
          compiled_body s e language code = (out, l, mid) \<and> cleanup_quiet e l mid \<longrightarrow>
            fst (execute_compiled_code s e language code block_id) =
              Inr (None, Some (''Unsupported language: '' @ language))"
    using unsupported_compiled [OF assms, of e stem s code out l mid block_id] by blast
  have plain: "code \<noteq> [] \<and> language \<noteq> [] \<longrightarrow>
            post s e (unordered language code block_id) =
              Some (Inr (Response (ErrorBody (''Unsupported language: '' @ language)) 500), s)"
    using main by (simp add: post_def finish_def respond_def Let_def)
  have in_order: "code \<noteq> [] \<and> language \<noteq> [] \<longrightarrow>
            map_option fst (post s e (ordered language code block_id)) =
              Some (Inr (Response (ErrorBody (''Unsupported language: '' @ language)) 500))"
    using unsupported_execute_code [OF assms]
    by (simp add: post_ordered finish_def respond_def)
  from plain in_order have view: "code \<noteq> [] \<and> language \<noteq> [] \<longrightarrow>
            post s e (unordered language code block_id) =
              Some (Inr (Response (ErrorBody (''Unsupported language: '' @ language)) 500), s)
            \<and> map_option fst (post s e (ordered language code block_id)) =
              Some (Inr (Response (ErrorBody (''Unsupported language: '' @ language)) 500))"
    by blast
  from main unsupported_jupyter [OF assms, of s e code block_id] compiled view
  show ?thesis by blast
qed

theorem unsupported_language_is_named_witness:
  "execute_code init (env_ok 0 [] []) ''ruby'' ''puts 1'' None =
     Some (Inr (None, Some ''Unsupported language: ruby''), init)
   \<and> fst (execute_compiled_code init (env_ok 0 [] []) ''ruby'' ''puts 1'' None) =
     Inr (None, Some ''Unsupported language: ruby'')
   \<and> post init (env_ok 0 [] []) (unordered ''ruby'' ''puts 1'' None) =
     Some (Inr (Response (ErrorBody ''Unsupported language: ruby'') 500), init)
   \<and> map_option fst (post init (env_ok 0 [] []) (ordered ''ruby'' ''puts 1'' None)) =
     Some (Inr (Response (ErrorBody ''Unsupported language: ruby'') 500))"
proof -
  have unknown: "''ruby'' \<notin> set configured_languages"
    by (simp add: configured_languages_def)
  have body: "compiled_body init (env_ok 0 [] []) ''ruby'' ''puts 1'' =
     ((None, Some ''Unsupported language: ruby''),
      \<lparr>tmp_file_name = Some ''temp_file'', tmp_file_path = Some ''/tmp/tmpab12''\<rparr>,
      init\<lparr>files := [''/tmp/tmpab12'' \<mapsto> File ''puts 1'']\<rparr>)"
    by (simp add: compiled_body_def compiled_prepare_def get_file_extension_def
                  get_execution_command_def env_ok_def init_def Let_def)
  have quiet: "cleanup_quiet (env_ok 0 [] [])
      \<lparr>tmp_file_name = Some ''temp_file'', tmp_file_path = Some ''/tmp/tmpab12''\<rparr>
      (init\<lparr>files := [''/tmp/tmpab12'' \<mapsto> File ''puts 1'']\<rparr>)"
    by (simp add: cleanup_quiet_def compiled_finally_def path_exists_def os_remove_def
                  env_ok_def init_def Let_def)
  from unsupported_language_is_named
         [OF unknown, of init "env_ok 0 [] []" "''puts 1''" None "''/tmp/tmpab12''"
            "(None, Some ''Unsupported language: ruby'')"
            "\<lparr>tmp_file_name = Some ''temp_file'', tmp_file_path = Some ''/tmp/tmpab12''\<rparr>"
            "init\<lparr>files := [''/tmp/tmpab12'' \<mapsto> File ''puts 1'']\<rparr>"]
       body quiet
  show ?thesis by (simp add: env_ok_def)
qed


section \<open>Cleanup of the compiled pipeline\<close>

lemma derived_name_nonempty:
  "(if language = ''java'' then java_file_name code else Inr ''temp_file'') = Inr n \<Longrightarrow> n \<noteq> []"
  by (auto simp: java_file_name_def split: if_splits list.splits)

lemma compiled_prepare_locals:
  assumes "(if language = ''java'' then java_file_name code else Inr ''temp_file'') = Inr n"
    and "tmp_alloc e = Inr stem"
  shows "(\<exists>out s1. compiled_prepare s e language code =
            Inl (out, \<lparr>tmp_file_name = Some n,
                       tmp_file_path = Some (stem @ get_file_extension language)\<rparr>, s1))
       \<or> (\<exists>command s1. compiled_prepare s e language code =
            Inr (command, \<lparr>tmp_file_name = Some n,
                           tmp_file_path = Some (stem @ get_file_extension language)\<rparr>, s1))"
  using assms
  by (auto simp: compiled_prepare_def Let_def split: sum.splits option.splits if_splits)

lemma compiled_body_locals:
  assumes "(if language = ''java'' then java_file_name code else Inr ''temp_file'') = Inr n"
    and "tmp_alloc e = Inr stem"
    and "compiled_body s e language code = (out, l, mid)"
  shows "l = \<lparr>tmp_file_name = Some n, tmp_file_path = Some (stem @ get_file_extension language)\<rparr>"
proof -
  from compiled_prepare_locals [OF assms(1,2), of s]
  consider (early) out' s1 where "compiled_prepare s e language code =
            Inl (out', \<lparr>tmp_file_name = Some n,
                        tmp_file_path = Some (stem @ get_file_extension language)\<rparr>, s1)"
    | (run) command s1 where "compiled_prepare s e language code =
            Inr (command, \<lparr>tmp_file_name = Some n,
                           tmp_file_path = Some (stem @ get_file_extension language)\<rparr>, s1)"
    by blast
  then show ?thesis
  proof cases
    case early
    with assms(3) show ?thesis by (simp add: compiled_body_def)
  next
    case run
    with assms(3) have "fst (snd (compiled_run e command
        \<lparr>tmp_file_name = Some n, tmp_file_path = Some (stem @ get_file_extension language)\<rparr> s1)) = l"
      by (simp add: compiled_body_def)
    then show ?thesis by (simp add: compiled_run_locals)
  qed
qed

lemma compiled_finally_both_bound:
  assumes "n \<noteq> []"
  shows "compiled_finally e \<lparr>tmp_file_name = Some n, tmp_file_path = Some p\<rparr> mid =
           (if path_exists mid n then os_remove e mid n
            else if path_exists mid p then os_remove e mid p else (None, mid))"
  using assms by (simp add: compiled_finally_def path_exists_def)

lemma os_remove_quiet:
  "fst (os_remove e s q) = None \<Longrightarrow> snd (os_remove e s q) = s\<lparr>files := (files s)(q := None)\<rparr>"
  by (auto simp: os_remove_def split: option.splits node.splits)

text \<open>
  C4, amended. Once a compiled-strategy execution has allocated its temp file, on every
  exit path (write failure, rename failure, missing command, process exception, non-zero
  and zero exit code), provided that the cleanup raises no exception and does not find the
  allocated temp file and a file with the derived name (\<open>temp_file\<close>, or the third token
  plus \<open>.java\<close> for Java) both present, the call returns its outcome, and afterwards
  neither the allocated temp file nor a file with the derived name exists. Every other
  file, whatever the toolchain wrote included, is left as it was when the \<open>try\<close> body
  ended.
\<close>

theorem cleanup_releases_the_source_file:
  assumes "(if language = ''java'' then java_file_name code else Inr ''temp_file'') = Inr n"
    and "tmp_alloc e = Inr stem"
    and "compiled_body s e language code = (out, l, mid)"
    and "cleanup_quiet e l mid"
    and "\<not> (path_exists mid n \<and> path_exists mid (stem @ get_file_extension language))"
    and "execute_compiled_code s e language code block_id = (x, s')"
  shows "x = Inr out
       \<and> \<not> path_exists s' n
       \<and> \<not> path_exists s' (stem @ get_file_extension language)
       \<and> (\<forall>q. q \<noteq> n \<and> q \<noteq> stem @ get_file_extension language \<longrightarrow> files s' q = files mid q)"
proof -
  let ?p = "stem @ get_file_extension language"
  have l: "l = \<lparr>tmp_file_name = Some n, tmp_file_path = Some ?p\<rparr>"
    using assms(1,2,3) by (rule compiled_body_locals)
  have fin: "compiled_finally e l mid =
           (if path_exists mid n then os_remove e mid n
            else if path_exists mid ?p then os_remove e mid ?p else (None, mid))"
    unfolding l using derived_name_nonempty [OF assms(1)] by (rule compiled_finally_both_bound)
  from execute_compiled_code_quiet [OF assms(3,4), of block_id] assms(6)
  have x: "x = Inr out" and s': "s' = snd (compiled_finally e l mid)"
    by simp_all
  from assms(4) have quiet: "fst (compiled_finally e l mid) = None"
    by (simp add: cleanup_quiet_def)
  consider (derived) "path_exists mid n" "\<not> path_exists mid ?p"
    | (allocated) "\<not> path_exists mid n" "path_exists mid ?p"
    | (neither) "\<not> path_exists mid n" "\<not> path_exists mid ?p"
    using assms(5) by blast
  then have rest: "\<not> path_exists s' n \<and> \<not> path_exists s' ?p \<and>
                   (\<forall>q. q \<noteq> n \<and> q \<noteq> ?p \<longrightarrow> files s' q = files mid q)"
  proof cases
    case derived
    with quiet fin have "fst (os_remove e mid n) = None" by simp
    from os_remove_quiet [OF this] derived fin s'
    have "s' = mid\<lparr>files := (files mid)(n := None)\<rparr>" by simp
    with derived show ?thesis by (auto simp: path_exists_def)
  next
    case allocated
    with quiet fin have "fst (os_remove e mid ?p) = None" by simp
    from os_remove_quiet [OF this] allocated fin s'
    have "s' = mid\<lparr>files := (files mid)(?p := None)\<rparr>" by simp
    with allocated show ?thesis by (auto simp: path_exists_def)
  next
    case neither
    with fin s' have "s' = mid" by simp
    with neither show ?thesis by simp
  qed
  from x rest show ?thesis by blast
qed

text \<open>The claim as first stated fails. After a successful C build the binary that the
  call had the compiler write stays behind; and when the working directory already holds
  a file named \<open>temp_file\<close>, the allocated temp file stays.\<close>

theorem temp_artifacts_left_behind_counterexample:
  "\<not> path_exists init ''/tmp/tmpab12.c.out''
   \<and> path_exists (snd (execute_compiled_code init env_gcc ''c'' ''int main(){}'' None))
        ''/tmp/tmpab12.c.out''
   \<and> fst (execute_compiled_code cluttered (env_ok 0 ''hi'' []) ''c'' ''int main(){}'' None) =
        Inr (Some ''hi'', None)
   \<and> path_exists (snd (execute_compiled_code cluttered (env_ok 0 ''hi'' []) ''c'' ''int main(){}'' None))
        ''/tmp/tmpab12.c''"
  by (simp add: execute_compiled_code_def compiled_body_def compiled_prepare_def compiled_run_def
                compiled_finally_def get_file_extension_def get_execution_command_def
                path_exists_def os_remove_def env_gcc_def env_ok_def cluttered_def init_def Let_def)

text \<open>A C build on an empty file system whose compiler leaves a binary, and a Java build
  whose temp file is renamed to \<open>Main.java\<close> and whose program exits with 1.\<close>

theorem cleanup_releases_the_source_file_witness:
  "fst (execute_compiled_code init env_gcc ''c'' ''int main(){}'' None) = Inr (Some ''hi'', None)
   \<and> \<not> path_exists (snd (execute_compiled_code init env_gcc ''c'' ''int main(){}'' None))
          ''temp_file''
   \<and> \<not> path_exists (snd (execute_compiled_code init env_gcc ''c'' ''int main(){}'' None))
          ''/tmp/tmpab12.c''
   \<and> files (snd (execute_compiled_code init env_gcc ''c'' ''int main(){}'' None))
        ''/tmp/tmpab12.c.out'' = Some (File ''ELF'')
   \<and> fst (execute_compiled_code init (env_ok 1 [] ''boom'') ''java''
             ''public class Main {}'' None) = Inr (None, Some ''boom'')
   \<and> \<not> path_exists (snd (execute_compiled_code init (env_ok 1 [] ''boom'') ''java''
                            ''public class Main {}'' None)) ''Main.java''
   \<and> \<not> path_exists (snd (execute_compiled_code init (env_ok 1 [] ''boom'') ''java''
                            ''public class Main {}'' None)) ''/tmp/tmpab12.java''"
proof -
  let ?lc = "\<lparr>tmp_file_name = Some ''temp_file'', tmp_file_path = Some ''/tmp/tmpab12.c''\<rparr>"
  let ?mc = "init\<lparr>files := [''/tmp/tmpab12.c'' \<mapsto> File ''int main(){}'',
                               ''/tmp/tmpab12.c.out'' \<mapsto> File ''ELF'']\<rparr>"
  let ?lj = "\<lparr>tmp_file_name = Some ''Main.java'', tmp_file_path = Some ''/tmp/tmpab12.java''\<rparr>"
  let ?mj = "init\<lparr>files := [''Main.java'' \<mapsto> File ''public class Main {}'']\<rparr>"
  have body_c: "compiled_body init env_gcc ''c'' ''int main(){}'' = ((Some ''hi'', None), ?lc, ?mc)"
    by (simp add: compiled_body_def compiled_prepare_def compiled_run_def get_file_extension_def
                  get_execution_command_def env_gcc_def env_ok_def init_def Let_def)
  have name_java: "java_file_name ''public class Main {}'' = Inr ''Main.java''"
    by (simp add: java_file_name_def str_split_def space_len_def whitespace_def)
  have body_java: "compiled_body init (env_ok 1 [] ''boom'') ''java'' ''public class Main {}'' =
     ((None, Some ''boom''), ?lj, ?mj)"
    by (simp add: compiled_body_def compiled_prepare_def compiled_run_def get_file_extension_def
                  get_execution_command_def name_java os_rename_def env_ok_def init_def Let_def
                  fun_upd_twist)
  have alloc: "tmp_alloc env_gcc = Inr ''/tmp/tmpab12''"
    "tmp_alloc (env_ok 1 [] ''boom'') = Inr ''/tmp/tmpab12''"
    by (simp_all add: env_gcc_def env_ok_def)
  have quiet_c: "cleanup_quiet env_gcc ?lc ?mc"
    by (simp add: cleanup_quiet_def compiled_finally_def path_exists_def os_remove_def
                  env_gcc_def env_ok_def init_def Let_def)
  have quiet_java: "cleanup_quiet (env_ok 1 [] ''boom'') ?lj ?mj"
    by (simp add: cleanup_quiet_def compiled_finally_def path_exists_def os_remove_def
                  env_ok_def init_def Let_def)
  have single_c: "\<not> (path_exists ?mc ''temp_file'' \<and>
                      path_exists ?mc (''/tmp/tmpab12'' @ get_file_extension ''c''))"
    by (simp add: path_exists_def init_def)
  have single_java: "\<not> (path_exists ?mj ''Main.java'' \<and>
                         path_exists ?mj (''/tmp/tmpab12'' @ get_file_extension ''java''))"
    by (simp add: path_exists_def init_def get_file_extension_def)
  from cleanup_releases_the_source_file
         [of "''c''" "''int main(){}''" "''temp_file''" env_gcc "''/tmp/tmpab12''" init
             "(Some ''hi'', None)" ?lc ?mc None
             "fst (execute_compiled_code init env_gcc ''c'' ''int main(){}'' None)"
             "snd (execute_compiled_code init env_gcc ''c'' ''int main(){}'' None)",
          OF _ alloc(1) body_c quiet_c single_c]
  have c: "fst (execute_compiled_code init env_gcc ''c'' ''int main(){}'' None) = Inr (Some ''hi'', None)
     \<and> \<not> path_exists (snd (execute_compiled_code init env_gcc ''c'' ''int main(){}'' None))
            ''temp_file''
     \<and> \<not> path_exists (snd (execute_compiled_code init env_gcc ''c'' ''int main(){}'' None))
            ''/tmp/tmpab12.c''
     \<and> files (snd (execute_compiled_code init env_gcc ''c'' ''int main(){}'' None))
          ''/tmp/tmpab12.c.out'' = Some (File ''ELF'')"
    by (simp add: get_file_extension_def init_def)
  from cleanup_releases_the_source_file
         [of "''java''" "''public class Main {}''" "''Main.java''" "env_ok 1 [] ''boom''"
             "''/tmp/tmpab12''" init "(None, Some ''boom'')" ?lj ?mj None
             "fst (execute_compiled_code init (env_ok 1 [] ''boom'') ''java'' ''public class Main {}'' None)"
             "snd (execute_compiled_code init (env_ok 1 [] ''boom'') ''java'' ''public class Main {}'' None)",
          OF _ alloc(2) body_java quiet_java single_java]
  have j: "fst (execute_compiled_code init (env_ok 1 [] ''boom'') ''java''
             ''public class Main {}'' None) = Inr (None, Some ''boom'')
     \<and> \<not> path_exists (snd (execute_compiled_code init (env_ok 1 [] ''boom'') ''java''
                            ''public class Main {}'' None)) ''Main.java''
     \<and> \<not> path_exists (snd (execute_compiled_code init (env_ok 1 [] ''boom'') ''java''
                            ''public class Main {}'' None)) ''/tmp/tmpab12.java''"
    by (simp add: name_java get_file_extension_def)
  from c j show ?thesis by blast
qed


section \<open>Exceptions and empty error details\<close>

text \<open>
  C9. The claim does not hold of the code. A Java snippet with fewer than three tokens
  makes \<open>code.split()[2]\<close> raise \<open>IndexError\<close>; the handler returns the failure pair,
  but the \<open>finally\<close> block then reads \<open>tmp_file_path\<close>, which was never bound, and the
  \<open>UnboundLocalError\<close> leaves \<open>execute_compiled_code\<close> and \<open>post\<close>. And a failure whose
  error detail is the empty string (exit code 1, nothing on stderr) is answered by \<open>post\<close>
  as a success with no output, because \<open>if error:\<close> tests truthiness.
\<close>

theorem exception_leaves_compiled_pipeline:
  "execute_compiled_code init (env_ok 0 ''hi'' []) ''java'' ''System.out.println(1);'' (Some ''1'') =
     (Inl (UnboundLocalError ''tmp_file_path''), init)
   \<and> post init (env_ok 0 ''hi'' []) (unordered ''java'' ''System.out.println(1);'' (Some ''1'')) =
     Some (Inl (UnboundLocalError ''tmp_file_path''), init)
   \<and> fst (execute_compiled_code init (env_ok 1 [] []) ''c'' ''int main(){return 1;}'' (Some ''1'')) =
     Inr (None, Some [])
   \<and> map_option fst
        (post init (env_ok 1 [] []) (unordered ''c'' ''int main(){return 1;}'' (Some ''1''))) =
     Some (Inr (Response (OutputBody None) 200))"
  by (simp add: compiled_defs post_def finish_def respond_def execute_code_def env_ok_def
                init_def Let_def)

text \<open>
  C6. The claim does not hold of the code. In a batch of three Java blocks whose second
  block has fewer than three tokens, the \<open>UnboundLocalError\<close> of that block leaves the
  view: there is no result map, and the third block never runs. In a batch of three C
  blocks whose second block exits with 1 and an empty stderr, that block gets an output
  entry holding nothing, not an error entry.
\<close>

theorem batch_failure_reaches_siblings:
  "map_option fst (post_all init (\<lambda>i. env_ok 0 ''hi'' []) java_batch (Some ''java'')) =
     Some (Inl (UnboundLocalError ''tmp_file_path''))
   \<and> batch_entry (post_all init (\<lambda>i. env_ok 0 ''hi'' []) java_batch (Some ''java'')) ''3'' = None
   \<and> batch_entry (post_all init c_batch_envs c_batch (Some ''c'')) ''1'' =
       Some (OutputEntry (Some ''hi''))
   \<and> batch_entry (post_all init c_batch_envs c_batch (Some ''c'')) ''2'' =
       Some (OutputEntry None)
   \<and> batch_entry (post_all init c_batch_envs c_batch (Some ''c'')) ''3'' =
       Some (OutputEntry (Some ''hi''))"
  by (simp add: compiled_defs post_all_def execute_code_def env_ok_def init_def Let_def
                java_batch_def c_batch_def c_batch_envs_def batch_entry_def)

end
